theory Spec2Isabelle
  imports Main "HOL-Library.AList"
begin

section \<open>JavaScript values\<close>

text \<open>
  The route handlers read their input with \<^verbatim>\<open>await request.json()\<close> and type it
  \<^verbatim>\<open>any\<close>, so a body field may be any JSON value, or \<^verbatim>\<open>undefined\<close> when
  the field is absent. An object keeps its properties in insertion order.
  Numbers are the integral ones; strings are sequences of ASCII characters.
\<close>

datatype json =
    JUndefined
  | JNull
  | JBool bool
  | JNum int
  | JStr string
  | JArr "json list"
  | JObj "(string \<times> json) list"

text \<open>What \<^verbatim>\<open>if (v)\<close> and \<^verbatim>\<open>!v\<close> test.\<close>

fun truthy :: "json \<Rightarrow> bool" where
  "truthy JUndefined = False"
| "truthy JNull = False"
| "truthy (JBool b) = b"
| "truthy (JNum n) = (n \<noteq> 0)"
| "truthy (JStr s) = (s \<noteq> [])"
| "truthy (JArr xs) = True"
| "truthy (JObj kvs) = True"

text \<open>\<^verbatim>\<open>a || b\<close>\<close>

definition js_or :: "json \<Rightarrow> json \<Rightarrow> json" where
  "js_or a b = (if truthy a then a else b)"

text \<open>What a \<^verbatim>\<open>throw\<close> inside a handler or the connector carries.\<close>

datatype exn =
    Error string
  | TypeError
  | SyntaxError
  | FetchError
  | PrismaValidationError
  | UniqueConstraintViolation
  | ForeignKeyViolation
  | RecordNotFound

text \<open>
  Property access on a parsed body, as the destructuring
  \<^verbatim>\<open>const { type, title, ... } = body\<close> does it: \<^verbatim>\<open>null\<close> cannot be destructured,
  an object yields the property or \<^verbatim>\<open>undefined\<close>, and no other JSON value has a
  property of any of the names the handlers ask for.
\<close>

fun js_prop :: "json \<Rightarrow> string \<Rightarrow> json" where
  "js_prop (JObj kvs) k = (case map_of kvs k of None \<Rightarrow> JUndefined | Some v \<Rightarrow> v)"
| "js_prop v k = JUndefined"

definition destructurable :: "json \<Rightarrow> bool" where
  "destructurable b = (b \<noteq> JNull \<and> b \<noteq> JUndefined)"

subsection \<open>Strings\<close>

definition upper_char :: "char \<Rightarrow> char" where
  "upper_char c =
     (case map_of (zip ''abcdefghijklmnopqrstuvwxyz'' ''ABCDEFGHIJKLMNOPQRSTUVWXYZ'') c of
        None \<Rightarrow> c | Some d \<Rightarrow> d)"

definition lower_char :: "char \<Rightarrow> char" where
  "lower_char c =
     (case map_of (zip ''ABCDEFGHIJKLMNOPQRSTUVWXYZ'' ''abcdefghijklmnopqrstuvwxyz'') c of
        None \<Rightarrow> c | Some d \<Rightarrow> d)"

definition toUpperCase :: "string \<Rightarrow> string" where
  "toUpperCase s = map upper_char s"

definition toLowerCase :: "string \<Rightarrow> string" where
  "toLowerCase s = map lower_char s"

text \<open>\<^verbatim>\<open>v.toUpperCase()\<close> on a value of type \<^verbatim>\<open>any\<close>: only a string has the method.\<close>

fun call_toUpperCase :: "json \<Rightarrow> exn + string" where
  "call_toUpperCase (JStr s) = Inr (toUpperCase s)"
| "call_toUpperCase v = Inl TypeError"

fun call_toLowerCase :: "json \<Rightarrow> exn + string" where
  "call_toLowerCase (JStr s) = Inr (toLowerCase s)"
| "call_toLowerCase v = Inl TypeError"

definition digit_char :: "nat \<Rightarrow> char" where
  "digit_char d = ''0123456789'' ! d"

fun digits :: "nat \<Rightarrow> string" where
  "digits n = (if n < 10 then [digit_char n] else digits (n div 10) @ [digit_char (n mod 10)])"

declare digits.simps [simp del]

definition decimal :: "int \<Rightarrow> string" where
  "decimal i = (if i < 0 then CHR ''-'' # digits (nat (- i)) else digits (nat i))"

text \<open>Left-padding with zeros to a width, as the fields of an ISO timestamp are.\<close>

definition pad :: "nat \<Rightarrow> nat \<Rightarrow> string" where
  "pad w n = replicate (w - length (digits n)) CHR ''0'' @ digits n"

fun join_comma :: "string list \<Rightarrow> string" where
  "join_comma [] = []"
| "join_comma [s] = s"
| "join_comma (s # t # ss) = s @ '','' @ join_comma (t # ss)"

text \<open>
  \<^verbatim>\<open>String(v)\<close>, which is what a template literal \<^verbatim>\<open>`${v}`\<close> inserts. An array
  joins its elements with commas, \<^verbatim>\<open>null\<close> and \<^verbatim>\<open>undefined\<close> elements being empty.
\<close>

fun js_toString :: "json \<Rightarrow> string" where
  "js_toString JUndefined = ''undefined''"
| "js_toString JNull = ''null''"
| "js_toString (JBool b) = (if b then ''true'' else ''false'')"
| "js_toString (JNum n) = decimal n"
| "js_toString (JStr s) = s"
| "js_toString (JArr xs) =
     join_comma (map (\<lambda>x. if x = JNull \<or> x = JUndefined then [] else js_toString x) xs)"
| "js_toString (JObj kvs) = ''[object Object]''"

subsection \<open>Dates\<close>

text \<open>
  A \<^verbatim>\<open>Date\<close> is its time value, the milliseconds since the epoch; an invalid date is
  \<open>None\<close>. \<^verbatim>\<open>toISOString\<close> prints the UTC calendar date of a time value.
\<close>

definition civil_from_days :: "int \<Rightarrow> int \<times> int \<times> int" where
  "civil_from_days z0 =
     (let z = z0 + 719468;
          era = z div 146097;
          doe = z - era * 146097;
          yoe = (doe - doe div 1460 + doe div 36524 - doe div 146096) div 365;
          y = yoe + era * 400;
          doy = doe - (365 * yoe + yoe div 4 - yoe div 100);
          mp = (5 * doy + 2) div 153;
          d = doy - (153 * mp + 2) div 5 + 1;
          m = (if mp < 10 then mp + 3 else mp - 9)
      in (if m \<le> 2 then y + 1 else y, m, d))"

definition iso_year :: "int \<Rightarrow> string" where
  "iso_year y =
     (if 0 \<le> y \<and> y \<le> 9999 then pad 4 (nat y)
      else (if y < 0 then ''-'' else ''+'') @ pad 6 (nat (abs y)))"

definition toISOString :: "int \<Rightarrow> string" where
  "toISOString t =
     (let day = t div 86400000;
          ms = nat (t mod 86400000);
          (y, m, d) = civil_from_days day
      in iso_year y @ ''-'' @ pad 2 (nat m) @ ''-'' @ pad 2 (nat d) @ ''T''
         @ pad 2 (ms div 3600000) @ '':'' @ pad 2 (ms div 60000 mod 60) @ '':''
         @ pad 2 (ms div 1000 mod 60) @ ''.'' @ pad 3 (ms mod 1000) @ ''Z'')"

definition timeClip :: "int \<Rightarrow> int option" where
  "timeClip n = (if abs n \<le> 8640000000000000 then Some n else None)"

text \<open>
  \<^verbatim>\<open>new Date(v)\<close> for a JSON value. Parsing a string is the runtime's
  \<^verbatim>\<open>Date.parse\<close>, implementation-defined outside the ISO format, so it is a parameter.
\<close>

fun newDate :: "(string \<Rightarrow> int option) \<Rightarrow> json \<Rightarrow> int option" where
  "newDate parse JUndefined = None"
| "newDate parse JNull = Some 0"
| "newDate parse (JBool b) = Some (if b then 1 else 0)"
| "newDate parse (JNum n) = timeClip n"
| "newDate parse (JStr s) = parse s"
| "newDate parse (JArr xs) = parse (js_toString (JArr xs))"
| "newDate parse (JObj kvs) = parse (js_toString (JObj kvs))"

section \<open>The environment\<close>

text \<open>
  What the handlers reach outside themselves: the process environment the connector is
  configured from, the remote HR provider behind \<^verbatim>\<open>fetch\<close>, the clock, the identifiers
  the ORM draws for new rows, and the runtime's date parser. The remote is opaque: its
  answer may depend on every request it has received. \<open>netlog\<close> records the network
  calls made, \<open>ticks\<close> and \<open>idCount\<close> how many clock readings and identifiers have
  been consumed.
\<close>

record http_request =
  req_url :: string
  req_method :: string
  req_authorization :: string
  req_body :: "json option"

text \<open>
  What \<^verbatim>\<open>fetch\<close> gives: a transport failure, or a response with its status code, its
  status text and its body parsed as JSON (\<open>None\<close> when the body is not JSON).
  \<^verbatim>\<open>response.ok\<close> is a status code from 200 to 299.
\<close>

datatype fetch_result =
    NetworkFailure
  | HttpResponse (resp_code: nat) (resp_statusText: string) (resp_json: "json option")

definition response_ok :: "nat \<Rightarrow> bool" where
  "response_ok code = (200 \<le> code \<and> code \<le> 299)"

record world =
  env_ZENHR_API_URL :: "string option"
  env_ZENHR_API_KEY :: "string option"
  remote :: "http_request list \<Rightarrow> http_request \<Rightarrow> fetch_result"
  netlog :: "http_request list"
  clock :: "nat \<Rightarrow> int"
  ticks :: nat
  ids :: "nat \<Rightarrow> string"
  idCount :: nat
  Date_parse :: "string \<Rightarrow> int option"

text \<open>\<^verbatim>\<open>Date.now()\<close>, and the time value of \<^verbatim>\<open>new Date()\<close>.\<close>

definition Date_now :: "world \<Rightarrow> int \<times> world" where
  "Date_now w = (clock w (ticks w), w\<lparr>ticks := Suc (ticks w)\<rparr>)"

definition fresh_id :: "world \<Rightarrow> string \<times> world" where
  "fresh_id w = (ids w (idCount w), w\<lparr>idCount := Suc (idCount w)\<rparr>)"

section \<open>The ZenHR connector (src/lib/zenhr.ts)\<close>

record ZenHRAPI =
  baseURL :: string
  apiKey :: string

text \<open>\<^verbatim>\<open>process.env.X || d\<close>: an unset or empty variable gives the default.\<close>

definition env_or :: "string option \<Rightarrow> string \<Rightarrow> string" where
  "env_or v d = (case v of None \<Rightarrow> d | Some s \<Rightarrow> if s = [] then d else s)"

definition ZenHRAPI_constructor :: "world \<Rightarrow> ZenHRAPI" where
  "ZenHRAPI_constructor w =
     \<lparr>baseURL = env_or (env_ZENHR_API_URL w) ''https://api.zenhr.com/v1'',
      apiKey = env_or (env_ZENHR_API_KEY w) []\<rparr>"

text \<open>The module-level singleton \<^verbatim>\<open>zenhrAPI\<close>.\<close>

definition zenhrAPI :: "world \<Rightarrow> ZenHRAPI" where
  "zenhrAPI w = ZenHRAPI_constructor w"

text \<open>
  \<^verbatim>\<open>makeRequest\<close>: one \<^verbatim>\<open>fetch\<close>; a transport failure, a response that is not ok and
  a body that is not JSON all throw.
\<close>

definition makeRequest ::
  "ZenHRAPI \<Rightarrow> string \<Rightarrow> string \<Rightarrow> json option \<Rightarrow> world \<Rightarrow> (exn + json) \<times> world" where
  "makeRequest api endpoint method body w =
     (let req = \<lparr>req_url = baseURL api @ endpoint, req_method = method,
                  req_authorization = ''Bearer '' @ apiKey api, req_body = body\<rparr>;
          w' = w\<lparr>netlog := netlog w @ [req]\<rparr>
      in case remote w (netlog w) req of
           NetworkFailure \<Rightarrow> (Inl FetchError, w')
         | HttpResponse code txt b \<Rightarrow>
             if \<not> response_ok code
             then (Inl (Error (''ZenHR API Error: '' @ decimal (int code) @ '' '' @ txt)), w')
             else (case b of None \<Rightarrow> (Inl SyntaxError, w') | Some j \<Rightarrow> (Inr j, w')))"

text \<open>
  Every public operation wraps its body in \<^verbatim>\<open>try { ... } catch { throw new Error(msg) }\<close>.
\<close>

definition rethrow :: "string \<Rightarrow> (exn + json) \<times> world \<Rightarrow> (exn + json) \<times> world" where
  "rethrow msg r = (case r of (Inl e, w) \<Rightarrow> (Inl (Error msg), w) | (Inr j, w) \<Rightarrow> (Inr j, w))"

subsection \<open>Mock implementations\<close>

definition mockEmployeeData :: "string \<Rightarrow> json" where
  "mockEmployeeData employeeId =
     JObj [(''id'', JStr employeeId),
           (''name'', JStr (''Employee '' @ employeeId)),
           (''email'', JStr (''employee'' @ employeeId @ ''@company.com'')),
           (''department'', JStr ''Engineering''),
           (''position'', JStr ''Software Developer''),
           (''hireDate'', JStr ''2023-01-15''),
           (''status'', JStr ''active'')]"

definition mockEmployeesList :: json where
  "mockEmployeesList =
     JArr [JObj [(''id'', JStr ''1''),
                 (''name'', JStr ''John Doe''),
                 (''email'', JStr ''john.doe@company.com''),
                 (''department'', JStr ''Engineering''),
                 (''position'', JStr ''Senior Developer''),
                 (''hireDate'', JStr ''2022-03-15''),
                 (''status'', JStr ''active'')],
           JObj [(''id'', JStr ''2''),
                 (''name'', JStr ''Jane Smith''),
                 (''email'', JStr ''jane.smith@company.com''),
                 (''department'', JStr ''HR''),
                 (''position'', JStr ''HR Manager''),
                 (''hireDate'', JStr ''2021-08-20''),
                 (''status'', JStr ''active'')]]"

text \<open>
  An object spread followed by further properties: a later property overwrites an earlier
  one of the same name in place and is appended otherwise, which is \<open>AList.update\<close>.
\<close>

definition mockAttendanceResponse :: "(string \<times> json) list \<Rightarrow> world \<Rightarrow> json \<times> world" where
  "mockAttendanceResponse attendanceData w =
     (let (t1, w1) = Date_now w;
          (t2, w2) = Date_now w1
      in (JObj [(''success'', JBool True),
                (''message'', JStr ''Attendance marked successfully''),
                (''data'', JObj (AList.update ''timestamp'' (JStr (toISOString t2))
                                 (AList.update ''id'' (JStr (''att_'' @ decimal t1))
                                    attendanceData)))],
          w2))"

definition mockHRRequestResponse :: "(string \<times> json) list \<Rightarrow> world \<Rightarrow> json \<times> world" where
  "mockHRRequestResponse requestData w =
     (let (t1, w1) = Date_now w;
          (t2, w2) = Date_now w1
      in (JObj [(''success'', JBool True),
                (''message'', JStr ''HR request submitted successfully''),
                (''data'', JObj (AList.update ''createdAt'' (JStr (toISOString t2))
                                 (AList.update ''status'' (JStr ''pending'')
                                    (AList.update ''id'' (JStr (''req_'' @ decimal t1))
                                       requestData))))],
          w2))"

text \<open>\<^verbatim>\<open>employeeId || '1'\<close> on an optional string parameter.\<close>

definition mockHRRequestsList :: "string option \<Rightarrow> json" where
  "mockHRRequestsList employeeId =
     (let e = (case employeeId of None \<Rightarrow> ''1'' | Some s \<Rightarrow> if s = [] then ''1'' else s)
      in JArr [JObj [(''id'', JStr ''req_1''),
                     (''employeeId'', JStr e),
                     (''type'', JStr ''leave''),
                     (''title'', JStr ''Annual Leave Request''),
                     (''description'', JStr ''Requesting 5 days annual leave''),
                     (''startDate'', JStr ''2024-02-15''),
                     (''endDate'', JStr ''2024-02-19''),
                     (''status'', JStr ''pending'')],
               JObj [(''id'', JStr ''req_2''),
                     (''employeeId'', JStr e),
                     (''type'', JStr ''document_request''),
                     (''title'', JStr ''Salary Certificate''),
                     (''description'', JStr ''Need salary certificate for bank loan''),
                     (''status'', JStr ''approved'')]])"

definition mockUpdateHRRequestResponse :: "json \<Rightarrow> json \<Rightarrow> world \<Rightarrow> json \<times> world" where
  "mockUpdateHRRequestResponse requestId status w =
     (let (t, w1) = Date_now w
      in (JObj [(''success'', JBool True),
                (''message'', JStr ''HR request status updated successfully''),
                (''data'', JObj [(''id'', requestId),
                                 (''status'', status),
                                 (''updatedAt'', JStr (toISOString t))])],
          w1))"

subsection \<open>Operations\<close>

text \<open>
  Each operation answers from its mock when no API key is configured
  (\<^verbatim>\<open>if (!this.apiKey)\<close>) and goes to the network otherwise. Arguments the route
  handlers pass unchecked from a request body are JSON values. What the operations write
  to the console is left out, and so is \<^verbatim>\<open>fetchAttendanceRecords\<close>, which no handler
  calls.
\<close>

definition fetchEmployeeData :: "string \<Rightarrow> world \<Rightarrow> (exn + json) \<times> world" where
  "fetchEmployeeData employeeId w =
     (let api = zenhrAPI w
      in if apiKey api = [] then (Inr (mockEmployeeData employeeId), w)
         else rethrow ''Unable to fetch employee data from ZenHR''
                (makeRequest api (''/employees/'' @ employeeId) ''GET'' None w))"

definition fetchAllEmployees :: "string option \<Rightarrow> world \<Rightarrow> (exn + json) \<times> world" where
  "fetchAllEmployees companyId w =
     (let api = zenhrAPI w
      in if apiKey api = [] then (Inr mockEmployeesList, w)
         else rethrow ''Unable to fetch employees from ZenHR''
                (makeRequest api
                   (case companyId of
                      None \<Rightarrow> ''/employees''
                    | Some c \<Rightarrow> if c = [] then ''/employees''
                                else ''/companies/'' @ c @ ''/employees'')
                   ''GET'' None w))"

definition markAttendance :: "(string \<times> json) list \<Rightarrow> world \<Rightarrow> (exn + json) \<times> world" where
  "markAttendance attendanceData w =
     (let api = zenhrAPI w
      in if apiKey api = []
         then (let (j, w') = mockAttendanceResponse attendanceData w in (Inr j, w'))
         else rethrow ''Unable to mark attendance in ZenHR''
                (makeRequest api ''/attendance'' ''POST'' (Some (JObj attendanceData)) w))"

definition submitHRRequest :: "(string \<times> json) list \<Rightarrow> world \<Rightarrow> (exn + json) \<times> world" where
  "submitHRRequest requestData w =
     (let api = zenhrAPI w
      in if apiKey api = []
         then (let (j, w') = mockHRRequestResponse requestData w in (Inr j, w'))
         else rethrow ''Unable to submit HR request to ZenHR''
                (makeRequest api ''/hr-requests'' ''POST'' (Some (JObj requestData)) w))"

definition fetchHRRequests :: "string option \<Rightarrow> world \<Rightarrow> (exn + json) \<times> world" where
  "fetchHRRequests employeeId w =
     (let api = zenhrAPI w
      in if apiKey api = [] then (Inr (mockHRRequestsList employeeId), w)
         else rethrow ''Unable to fetch HR requests from ZenHR''
                (makeRequest api
                   (case employeeId of
                      None \<Rightarrow> ''/hr-requests''
                    | Some e \<Rightarrow> if e = [] then ''/hr-requests''
                                else ''/hr-requests?employee='' @ e)
                   ''GET'' None w))"

definition updateHRRequestStatus ::
  "json \<Rightarrow> json \<Rightarrow> json \<Rightarrow> world \<Rightarrow> (exn + json) \<times> world" where
  "updateHRRequestStatus requestId status comments w =
     (let api = zenhrAPI w
      in if apiKey api = []
         then (let (j, w') = mockUpdateHRRequestResponse requestId status w in (Inr j, w'))
         else rethrow ''Unable to update HR request status in ZenHR''
                (makeRequest api (''/hr-requests/'' @ js_toString requestId) ''PATCH''
                   (Some (JObj [(''status'', status), (''comments'', comments)])) w))"

text \<open>
  The connector cannot fail at the next call: either it answers from its mocks, or the
  remote answers whatever it is sent next with an ok response carrying JSON.
\<close>

definition connector_up :: "world \<Rightarrow> bool" where
  "connector_up w =
     (apiKey (zenhrAPI w) = []
      \<or> (\<forall>req. \<exists>code txt j. response_ok code
                \<and> remote w (netlog w) req = HttpResponse code txt (Some j)))"

section \<open>The persistent store (Prisma over the SQL schema)\<close>

text \<open>
  One record per table, with the columns the handlers read or write; a nullable column
  is an \<open>option\<close>, a \<^verbatim>\<open>DATETIME\<close> is a time value. \<open>hr_documents\<close> holds the
  value whose \<^verbatim>\<open>JSON.stringify\<close> text the column stores. A table is the list of its
  rows in insertion order.
\<close>

record user =
  u_id :: string
  u_name :: "string option"
  u_email :: string
  u_role :: string
  u_companyId :: "string option"
  u_employeeId :: "string option"
  u_department :: "string option"

record company =
  c_id :: string
  c_name :: string

record hRRequest =
  hr_id :: string
  hr_type :: string
  hr_title :: string
  hr_description :: "string option"
  hr_status :: string
  hr_priority :: string
  hr_startDate :: "int option"
  hr_endDate :: "int option"
  hr_documents :: "json option"
  hr_comments :: "string option"
  hr_createdAt :: int
  hr_updatedAt :: int
  hr_employeeId :: string
  hr_managerId :: "string option"
  hr_companyId :: string

record requestApproval =
  ap_id :: string
  ap_status :: string
  ap_comments :: "string option"
  ap_createdAt :: int
  ap_requestId :: string
  ap_approverId :: string

record attendance =
  at_id :: string
  at_date :: int
  at_checkIn :: "int option"
  at_checkOut :: "int option"
  at_status :: string
  at_notes :: "string option"
  at_location :: "string option"
  at_createdAt :: int
  at_updatedAt :: int
  at_employeeId :: string

record notification =
  n_id :: string
  n_title :: string
  n_message :: string
  n_type :: string
  n_isRead :: bool
  n_createdAt :: int
  n_userId :: string

record db =
  users :: "user list"
  companies :: "company list"
  hrRequests :: "hRRequest list"
  approvals :: "requestApproval list"
  attendances :: "attendance list"
  notifications :: "notification list"

subsection \<open>Argument validation\<close>

text \<open>
  The client rejects an argument of the wrong type before any query is sent: a string
  column takes a string, a nullable one also \<^verbatim>\<open>null\<close> or \<^verbatim>\<open>undefined\<close>, a
  \<^verbatim>\<open>DATETIME\<close> column a valid \<^verbatim>\<open>Date\<close>.
\<close>

fun required_string :: "json \<Rightarrow> exn + string" where
  "required_string (JStr s) = Inr s"
| "required_string v = Inl PrismaValidationError"

fun optional_string :: "json \<Rightarrow> exn + string option" where
  "optional_string (JStr s) = Inr (Some s)"
| "optional_string JNull = Inr None"
| "optional_string JUndefined = Inr None"
| "optional_string v = Inl PrismaValidationError"

text \<open>A \<^verbatim>\<open>Date\<close> argument: \<open>None\<close> is the invalid date.\<close>

definition required_date :: "int option \<Rightarrow> exn + int" where
  "required_date d = (case d of None \<Rightarrow> Inl PrismaValidationError | Some t \<Rightarrow> Inr t)"

text \<open>A \<^verbatim>\<open>Date\<close> or \<^verbatim>\<open>null\<close>: the outer \<open>None\<close> is \<^verbatim>\<open>null\<close>.\<close>

definition optional_date :: "int option option \<Rightarrow> exn + int option" where
  "optional_date d =
     (case d of
        None \<Rightarrow> Inr None
      | Some None \<Rightarrow> Inl PrismaValidationError
      | Some (Some t) \<Rightarrow> Inr (Some t))"

subsection \<open>Queries on \<^verbatim>\<open>User\<close>\<close>

definition user_findUnique :: "db \<Rightarrow> string \<Rightarrow> user option" where
  "user_findUnique d i = find (\<lambda>u. u_id u = i) (users d)"

text \<open>
  \<^verbatim>\<open>findFirst({ where: { companyId, role } })\<close>: a \<^verbatim>\<open>companyId\<close> of
  \<^verbatim>\<open>undefined\<close> (outer \<open>None\<close>) drops the condition, \<^verbatim>\<open>null\<close> asks for users
  without a company. Without \<^verbatim>\<open>orderBy\<close> the first row in table order is returned.
\<close>

definition user_findFirst :: "db \<Rightarrow> string option option \<Rightarrow> string \<Rightarrow> user option" where
  "user_findFirst d companyId role =
     find (\<lambda>u. (case companyId of None \<Rightarrow> True | Some c \<Rightarrow> u_companyId u = c) \<and> u_role u = role)
       (users d)"

subsection \<open>Writes\<close>

text \<open>
  A write draws the new row's identifier and timestamp, then meets the constraints of the
  schema: primary keys, the unique index \<^verbatim>\<open>Attendance_employeeId_date_key\<close>, and the
  foreign keys. A violated constraint throws and leaves the table as it was, and so does an
  argument that fails validation.
\<close>

record hRRequest_data =
  d_type :: string
  d_title :: json
  d_description :: json
  d_priority :: json
  d_startDate :: "int option option"
  d_endDate :: "int option option"
  d_documents :: "json option"
  d_employeeId :: string
  d_managerId :: "string option"
  d_companyId :: string

definition hRRequest_create ::
  "hRRequest_data \<Rightarrow> world \<Rightarrow> db \<Rightarrow> (exn + hRRequest) \<times> world \<times> db" where
  "hRRequest_create dat w d =
     (case (required_string (d_title dat), optional_string (d_description dat),
            required_string (d_priority dat), optional_date (d_startDate dat),
            optional_date (d_endDate dat)) of
        (Inr title, Inr description, Inr priority, Inr startDate, Inr endDate) \<Rightarrow>
        (let (i, w1) = fresh_id w;
             (t, w2) = Date_now w1;
             row = \<lparr>hr_id = i, hr_type = d_type dat, hr_title = title,
                    hr_description = description, hr_status = ''PENDING'',
                    hr_priority = priority, hr_startDate = startDate, hr_endDate = endDate,
                    hr_documents = d_documents dat, hr_comments = None,
                    hr_createdAt = t, hr_updatedAt = t,
                    hr_employeeId = d_employeeId dat, hr_managerId = d_managerId dat,
                    hr_companyId = d_companyId dat\<rparr>
         in if i \<in> set (map hr_id (hrRequests d)) then (Inl UniqueConstraintViolation, w2, d)
            else if d_employeeId dat \<notin> set (map u_id (users d))
                    \<or> (case d_managerId dat of None \<Rightarrow> False
                        | Some m \<Rightarrow> m \<notin> set (map u_id (users d)))
                    \<or> d_companyId dat \<notin> set (map c_id (companies d))
            then (Inl ForeignKeyViolation, w2, d)
            else (Inr row, w2, d\<lparr>hrRequests := hrRequests d @ [row]\<rparr>))
      | _ \<Rightarrow> (Inl PrismaValidationError, w, d))"

text \<open>
  \<^verbatim>\<open>update({ where: { id }, data: { status, comments } })\<close>: a \<^verbatim>\<open>comments\<close> of
  \<^verbatim>\<open>undefined\<close> leaves the column as it is; a missing row throws. \<open>update_row\<close> is
  the \<^verbatim>\<open>data\<close> applied to a row, \<open>c\<close> being the validated \<^verbatim>\<open>comments\<close>.
\<close>

definition update_row :: "string \<Rightarrow> json \<Rightarrow> string option \<Rightarrow> int \<Rightarrow> hRRequest \<Rightarrow> hRRequest" where
  "update_row status comments c t r =
     r\<lparr>hr_status := status,
       hr_comments := (if comments = JUndefined then hr_comments r else c),
       hr_updatedAt := t\<rparr>"

definition hRRequest_update ::
  "json \<Rightarrow> string \<Rightarrow> json \<Rightarrow> world \<Rightarrow> db \<Rightarrow> (exn + hRRequest) \<times> world \<times> db" where
  "hRRequest_update requestId status comments w d =
     (case (required_string requestId, optional_string comments) of
        (Inr i, Inr c) \<Rightarrow>
        (let (t, w1) = Date_now w
         in case find (\<lambda>r. hr_id r = i) (hrRequests d) of
              None \<Rightarrow> (Inl RecordNotFound, w1, d)
            | Some r \<Rightarrow>
                (Inr (update_row status comments c t r), w1,
                 d\<lparr>hrRequests := map (\<lambda>r. if hr_id r = i then update_row status comments c t r
                                          else r) (hrRequests d)\<rparr>))
      | _ \<Rightarrow> (Inl PrismaValidationError, w, d))"

record requestApproval_data =
  d_requestId :: json
  d_approverId :: string
  d_status :: string
  d_comments :: json

definition requestApproval_create ::
  "requestApproval_data \<Rightarrow> world \<Rightarrow> db \<Rightarrow> (exn + requestApproval) \<times> world \<times> db" where
  "requestApproval_create dat w d =
     (case (required_string (d_requestId dat), optional_string (d_comments dat)) of
        (Inr rid, Inr c) \<Rightarrow>
        (let (i, w1) = fresh_id w;
             (t, w2) = Date_now w1;
             row = \<lparr>ap_id = i, ap_status = d_status dat, ap_comments = c, ap_createdAt = t,
                    ap_requestId = rid, ap_approverId = d_approverId dat\<rparr>
         in if i \<in> set (map ap_id (approvals d)) then (Inl UniqueConstraintViolation, w2, d)
            else if rid \<notin> set (map hr_id (hrRequests d))
                    \<or> d_approverId dat \<notin> set (map u_id (users d))
            then (Inl ForeignKeyViolation, w2, d)
            else (Inr row, w2, d\<lparr>approvals := approvals d @ [row]\<rparr>))
      | _ \<Rightarrow> (Inl PrismaValidationError, w, d))"

record notification_data =
  d_ntitle :: string
  d_message :: string
  d_ntype :: string
  d_userId :: string

definition notification_create ::
  "notification_data \<Rightarrow> world \<Rightarrow> db \<Rightarrow> (exn + notification) \<times> world \<times> db" where
  "notification_create dat w d =
     (let (i, w1) = fresh_id w;
          (t, w2) = Date_now w1;
          row = \<lparr>n_id = i, n_title = d_ntitle dat, n_message = d_message dat,
                 n_type = d_ntype dat, n_isRead = False, n_createdAt = t,
                 n_userId = d_userId dat\<rparr>
      in if i \<in> set (map n_id (notifications d)) then (Inl UniqueConstraintViolation, w2, d)
         else if d_userId dat \<notin> set (map u_id (users d)) then (Inl ForeignKeyViolation, w2, d)
         else (Inr row, w2, d\<lparr>notifications := notifications d @ [row]\<rparr>))"

record attendance_data =
  d_aemployeeId :: string
  d_date :: "int option"
  d_checkIn :: "int option"
  d_checkOut :: "int option option"
  d_astatus :: json
  d_notes :: json
  d_location :: json

text \<open>The arguments of an attendance row pass validation.\<close>

definition attendance_valid :: "attendance_data \<Rightarrow> bool" where
  "attendance_valid dat =
     (case (required_date (d_date dat), required_date (d_checkIn dat),
            optional_date (d_checkOut dat), required_string (d_astatus dat),
            optional_string (d_notes dat), optional_string (d_location dat)) of
        (Inr date, Inr checkIn, Inr checkOut, Inr status, Inr notes, Inr location) \<Rightarrow> True
      | _ \<Rightarrow> False)"

definition attendance_create ::
  "attendance_data \<Rightarrow> world \<Rightarrow> db \<Rightarrow> (exn + attendance) \<times> world \<times> db" where
  "attendance_create dat w d =
     (case (required_date (d_date dat), required_date (d_checkIn dat),
            optional_date (d_checkOut dat), required_string (d_astatus dat),
            optional_string (d_notes dat), optional_string (d_location dat)) of
        (Inr date, Inr checkIn, Inr checkOut, Inr status, Inr notes, Inr location) \<Rightarrow>
        (let (i, w1) = fresh_id w;
             (t, w2) = Date_now w1;
             row = \<lparr>at_id = i, at_date = date, at_checkIn = Some checkIn,
                    at_checkOut = checkOut, at_status = status, at_notes = notes,
                    at_location = location, at_createdAt = t, at_updatedAt = t,
                    at_employeeId = d_aemployeeId dat\<rparr>
         in if i \<in> set (map at_id (attendances d))
               \<or> (d_aemployeeId dat, date)
                    \<in> set (map (\<lambda>a. (at_employeeId a, at_date a)) (attendances d))
            then (Inl UniqueConstraintViolation, w2, d)
            else if d_aemployeeId dat \<notin> set (map u_id (users d))
            then (Inl ForeignKeyViolation, w2, d)
            else (Inr row, w2, d\<lparr>attendances := attendances d @ [row]\<rparr>))
      | _ \<Rightarrow> (Inl PrismaValidationError, w, d))"

section \<open>Sessions and responses\<close>

text \<open>
  \<^verbatim>\<open>session.user\<close> as the session layer hands it over: the fields the session callback
  copies from the token. \<open>None\<close> is a missing session or a session without a user.
\<close>

record session_user =
  s_id :: string
  s_name :: json
  s_role :: string
  s_companyId :: string
  s_employeeId :: string

type_synonym employee_select = "string option \<times> string \<times> string option"
type_synonym employee_select_list = "string option \<times> string \<times> string option \<times> string option"
type_synonym name_email = "string option \<times> string"

text \<open>
  The JSON a handler answers with: an \<^verbatim>\<open>{ error }\<close> object, or the
  \<^verbatim>\<open>{ success: true, ... data }\<close> object of the handler, whose \<^verbatim>\<open>message\<close> is fixed.
  The rows carry the relations their query \<^verbatim>\<open>include\<close>s, with the selected columns.
\<close>

datatype response_body =
    ErrorBody string
  | HRRequestSubmitted hRRequest "employee_select option" "name_email option" json
  | HRRequestList
      "(hRRequest \<times> employee_select_list option \<times> name_email option
        \<times> (requestApproval \<times> name_email option) list) list"
  | HRRequestUpdated hRRequest "name_email option"
  | AttendanceMarked attendance json

record response =
  http_status :: nat
  payload :: response_body

definition select_name_email :: "db \<Rightarrow> string \<Rightarrow> name_email option" where
  "select_name_email d i = map_option (\<lambda>u. (u_name u, u_email u)) (user_findUnique d i)"

section \<open>HR requests (src/app/api/hr-request/route.ts)\<close>

subsection \<open>\<^verbatim>\<open>POST\<close>: submit\<close>

text \<open>The object the handler passes to \<^verbatim>\<open>zenhrAPI.submitHRRequest\<close>.\<close>

definition submit_requestData :: "session_user \<Rightarrow> json \<Rightarrow> (string \<times> json) list" where
  "submit_requestData su b =
     [(''employeeId'', JStr (s_employeeId su)), (''type'', js_prop b ''type''),
      (''title'', js_prop b ''title''), (''description'', js_prop b ''description''),
      (''startDate'', js_prop b ''startDate''), (''endDate'', js_prop b ''endDate'')]"

text \<open>
  The \<^verbatim>\<open>data\<close> object of \<^verbatim>\<open>prisma.hRRequest.create\<close>. Building it calls
  \<^verbatim>\<open>type.toUpperCase()\<close>, which throws when \<^verbatim>\<open>type\<close> is not a string. The
  destructuring default \<^verbatim>\<open>priority = 'MEDIUM'\<close> applies to \<^verbatim>\<open>undefined\<close> only.
\<close>

definition submit_data ::
  "session_user \<Rightarrow> json \<Rightarrow> user option \<Rightarrow> world \<Rightarrow> exn + hRRequest_data" where
  "submit_data su b manager w =
     (let type = js_prop b ''type'';
          startDate = js_prop b ''startDate'';
          endDate = js_prop b ''endDate'';
          priority = (if js_prop b ''priority'' = JUndefined then JStr ''MEDIUM''
                      else js_prop b ''priority'');
          documents = js_prop b ''documents''
      in case call_toUpperCase type of
           Inl e \<Rightarrow> Inl e
         | Inr utype \<Rightarrow>
             Inr \<lparr>d_type = utype,
                  d_title = js_prop b ''title'',
                  d_description = js_prop b ''description'',
                  d_priority = priority,
                  d_startDate = (if truthy startDate then Some (newDate (Date_parse w) startDate)
                                 else None),
                  d_endDate = (if truthy endDate then Some (newDate (Date_parse w) endDate)
                               else None),
                  d_documents = (if truthy documents then Some documents else None),
                  d_employeeId = s_id su,
                  d_managerId = map_option u_id manager,
                  d_companyId = s_companyId su\<rparr>)"

text \<open>The notification for the manager.\<close>

definition submit_notification :: "session_user \<Rightarrow> json \<Rightarrow> user \<Rightarrow> notification_data" where
  "submit_notification su b manager =
     \<lparr>d_ntitle = ''New HR Request'',
      d_message = js_toString (s_name su) @ '' has submitted a ''
                  @ js_toString (js_prop b ''type'') @ '' request: ''
                  @ js_toString (js_prop b ''title''),
      d_ntype = ''HR_REQUEST'',
      d_userId = u_id manager\<rparr>"

text \<open>The success response, with the relations the \<^verbatim>\<open>create\<close> includes.\<close>

definition submit_response :: "db \<Rightarrow> hRRequest \<Rightarrow> json \<Rightarrow> response" where
  "submit_response d hrRequest zenhrResponse =
     \<lparr>http_status = 200,
      payload = HRRequestSubmitted hrRequest
        (map_option (\<lambda>u. (u_name u, u_email u, u_employeeId u))
           (user_findUnique d (hr_employeeId hrRequest)))
        (case hr_managerId hrRequest of None \<Rightarrow> None | Some m \<Rightarrow> select_name_email d m)
        zenhrResponse\<rparr>"

text \<open>
  The \<^verbatim>\<open>try\<close> block. The body argument is \<open>None\<close> when \<^verbatim>\<open>request.json()\<close> rejects.
\<close>

definition hr_request_POST_try ::
  "world \<Rightarrow> db \<Rightarrow> session_user option \<Rightarrow> json option \<Rightarrow> (exn + response) \<times> world \<times> db" where
  "hr_request_POST_try w d session body =
     (case session of
        None \<Rightarrow> (Inr \<lparr>http_status = 401, payload = ErrorBody ''Unauthorized''\<rparr>, w, d)
      | Some su \<Rightarrow>
     (case body of
        None \<Rightarrow> (Inl SyntaxError, w, d)
      | Some b \<Rightarrow>
     if \<not> destructurable b then (Inl TypeError, w, d)
     else if \<not> truthy (js_prop b ''type'') \<or> \<not> truthy (js_prop b ''title'')
             \<or> \<not> truthy (js_prop b ''description'')
     then (Inr \<lparr>http_status = 400,
                payload = ErrorBody ''Type, title, and description are required''\<rparr>, w, d)
     else
     (case submitHRRequest (submit_requestData su b) w of
        (Inl e, w1) \<Rightarrow> (Inl e, w1, d)
      | (Inr zenhrResponse, w1) \<Rightarrow>
     (let employee = user_findUnique d (s_id su);
          manager = user_findFirst d (map_option u_companyId employee) ''MANAGER''
      in
     (case submit_data su b manager w1 of
        Inl e \<Rightarrow> (Inl e, w1, d)
      | Inr dat \<Rightarrow>
     (case hRRequest_create dat w1 d of
        (Inl e, w2, d2) \<Rightarrow> (Inl e, w2, d2)
      | (Inr hrRequest, w2, d2) \<Rightarrow>
     (case manager of
        None \<Rightarrow> (Inr (submit_response d2 hrRequest zenhrResponse), w2, d2)
      | Some m \<Rightarrow>
     (case notification_create (submit_notification su b m) w2 d2 of
        (Inl e, w3, d3) \<Rightarrow> (Inl e, w3, d3)
      | (Inr n, w3, d3) \<Rightarrow>
          (Inr (submit_response d3 hrRequest zenhrResponse), w3, d3)))))))))"

text \<open>The \<^verbatim>\<open>catch\<close> turns whatever was thrown into a 500 and keeps what was written.\<close>

definition hr_request_POST ::
  "world \<Rightarrow> db \<Rightarrow> session_user option \<Rightarrow> json option \<Rightarrow> response \<times> world \<times> db" where
  "hr_request_POST w d session body =
     (case hr_request_POST_try w d session body of
        (Inl e, w', d') \<Rightarrow>
          (\<lparr>http_status = 500, payload = ErrorBody ''Failed to submit HR request''\<rparr>, w', d')
      | (Inr r, w', d') \<Rightarrow> (r, w', d'))"

subsection \<open>\<^verbatim>\<open>GET\<close>: list\<close>

text \<open>
  The \<^verbatim>\<open>whereClause\<close> object the handler fills in, one field per key it may set;
  \<open>w_OR\<close> holds the identifier both alternatives of the \<^verbatim>\<open>OR\<close> compare with.
\<close>

record whereClause =
  w_employeeId :: "string option"
  w_OR :: "string option"
  w_companyId :: "string option"
  w_status :: "string option"
  w_type :: "string option"

definition where_matches :: "whereClause \<Rightarrow> hRRequest \<Rightarrow> bool" where
  "where_matches wc r =
     ((case w_employeeId wc of None \<Rightarrow> True | Some e \<Rightarrow> hr_employeeId r = e)
      \<and> (case w_OR wc of None \<Rightarrow> True
          | Some i \<Rightarrow> hr_employeeId r = i \<or> hr_managerId r = Some i)
      \<and> (case w_companyId wc of None \<Rightarrow> True | Some c \<Rightarrow> hr_companyId r = c)
      \<and> (case w_status wc of None \<Rightarrow> True | Some s \<Rightarrow> hr_status r = s)
      \<and> (case w_type wc of None \<Rightarrow> True | Some t \<Rightarrow> hr_type r = t))"

text \<open>\<^verbatim>\<open>if (p)\<close> on a query parameter: \<^verbatim>\<open>null\<close> and the empty string are falsy.\<close>

definition given :: "string option \<Rightarrow> bool" where
  "given p = (case p of None \<Rightarrow> False | Some s \<Rightarrow> s \<noteq> [])"

definition role_filter :: "session_user \<Rightarrow> string option \<Rightarrow> whereClause" where
  "role_filter su employeeId =
     (let wc = \<lparr>w_employeeId = None, w_OR = None, w_companyId = None, w_status = None,
                w_type = None\<rparr>
      in if s_role su = ''EMPLOYEE'' then wc\<lparr>w_employeeId := Some (s_id su)\<rparr>
         else if s_role su = ''MANAGER''
         then (if given employeeId then wc\<lparr>w_employeeId := employeeId\<rparr>
               else wc\<lparr>w_OR := Some (s_id su)\<rparr>)
         else if s_role su = ''ADMIN''
         then (let wc' = wc\<lparr>w_companyId := Some (s_companyId su)\<rparr>
               in if given employeeId then wc'\<lparr>w_employeeId := employeeId\<rparr> else wc')
         else wc)"

definition additional_filters :: "string option \<Rightarrow> string option \<Rightarrow> whereClause \<Rightarrow> whereClause" where
  "additional_filters status type wc =
     (let wc1 = (if given status then wc\<lparr>w_status := map_option toUpperCase status\<rparr> else wc)
      in if given type then wc1\<lparr>w_type := map_option toUpperCase type\<rparr> else wc1)"

text \<open>
  \<^verbatim>\<open>findMany\<close> ordered by \<^verbatim>\<open>createdAt\<close> descending; rows created at the same instant
  keep their table order.
\<close>

definition hRRequest_findMany :: "db \<Rightarrow> whereClause \<Rightarrow> hRRequest list" where
  "hRRequest_findMany d wc = sort_key (\<lambda>r. - hr_createdAt r) (filter (where_matches wc) (hrRequests d))"

definition hr_request_GET ::
  "db \<Rightarrow> session_user option \<Rightarrow> string option \<Rightarrow> string option \<Rightarrow> string option \<Rightarrow> response" where
  "hr_request_GET d session status type employeeId =
     (case session of
        None \<Rightarrow> \<lparr>http_status = 401, payload = ErrorBody ''Unauthorized''\<rparr>
      | Some su \<Rightarrow>
          (let whereClause = additional_filters status type (role_filter su employeeId);
               hrRequests = hRRequest_findMany d whereClause
           in \<lparr>http_status = 200,
               payload = HRRequestList
                 (map (\<lambda>r. (r,
                        map_option (\<lambda>u. (u_name u, u_email u, u_employeeId u, u_department u))
                          (user_findUnique d (hr_employeeId r)),
                        (case hr_managerId r of
                           None \<Rightarrow> None | Some m \<Rightarrow> select_name_email d m),
                        map (\<lambda>a. (a, select_name_email d (ap_approverId a)))
                          (filter (\<lambda>a. ap_requestId a = hr_id r) (approvals d))))
                    hrRequests)\<rparr>))"

text \<open>The requests a list response carries.\<close>

definition listed :: "response \<Rightarrow> hRRequest list" where
  "listed r = (case payload r of HRRequestList xs \<Rightarrow> map fst xs | _ \<Rightarrow> [])"

subsection \<open>\<^verbatim>\<open>PATCH\<close>: update status\<close>

definition hr_request_PATCH_try ::
  "world \<Rightarrow> db \<Rightarrow> session_user option \<Rightarrow> json option \<Rightarrow> (exn + response) \<times> world \<times> db" where
  "hr_request_PATCH_try w d session body =
     (case session of
        None \<Rightarrow> (Inr \<lparr>http_status = 401, payload = ErrorBody ''Unauthorized''\<rparr>, w, d)
      | Some su \<Rightarrow>
     if s_role su \<noteq> ''MANAGER'' \<and> s_role su \<noteq> ''ADMIN''
     then (Inr \<lparr>http_status = 401, payload = ErrorBody ''Unauthorized''\<rparr>, w, d)
     else
     (case body of
        None \<Rightarrow> (Inl SyntaxError, w, d)
      | Some b \<Rightarrow>
     if \<not> destructurable b then (Inl TypeError, w, d)
     else
       (let requestId = js_prop b ''requestId'';
            status = js_prop b ''status'';
            comments = js_prop b ''comments''
        in
     if \<not> truthy requestId \<or> \<not> truthy status
     then (Inr \<lparr>http_status = 400,
                payload = ErrorBody ''Request ID and status are required''\<rparr>, w, d)
     else
     (case call_toUpperCase status of
        Inl e \<Rightarrow> (Inl e, w, d)
      | Inr ustatus \<Rightarrow>
     (case hRRequest_update requestId ustatus comments w d of
        (Inl e, w1, d1) \<Rightarrow> (Inl e, w1, d1)
      | (Inr updatedRequest, w1, d1) \<Rightarrow>
     (case requestApproval_create
             \<lparr>d_requestId = requestId, d_approverId = s_id su, d_status = ustatus,
              d_comments = comments\<rparr> w1 d1 of
        (Inl e, w2, d2) \<Rightarrow> (Inl e, w2, d2)
      | (Inr approval, w2, d2) \<Rightarrow>
     (case updateHRRequestStatus requestId status comments w2 of
        (Inl e, w3) \<Rightarrow> (Inl e, w3, d2)
      | (Inr zenhrResponse, w3) \<Rightarrow>
     (case call_toLowerCase status of
        Inl e \<Rightarrow> (Inl e, w3, d2)
      | Inr lstatus \<Rightarrow>
     (case notification_create
             \<lparr>d_ntitle = ''HR Request Update'',
              d_message = ''Your '' @ hr_type updatedRequest @ '' request has been '' @ lstatus,
              d_ntype = ''HR_REQUEST'',
              d_userId = hr_employeeId updatedRequest\<rparr> w3 d2 of
        (Inl e, w4, d4) \<Rightarrow> (Inl e, w4, d4)
      | (Inr n, w4, d4) \<Rightarrow>
          (Inr \<lparr>http_status = 200,
                payload = HRRequestUpdated updatedRequest
                            (select_name_email d (hr_employeeId updatedRequest))\<rparr>,
           w4, d4))))))))))"

definition hr_request_PATCH ::
  "world \<Rightarrow> db \<Rightarrow> session_user option \<Rightarrow> json option \<Rightarrow> response \<times> world \<times> db" where
  "hr_request_PATCH w d session body =
     (case hr_request_PATCH_try w d session body of
        (Inl e, w', d') \<Rightarrow>
          (\<lparr>http_status = 500, payload = ErrorBody ''Failed to update HR request''\<rparr>, w', d')
      | (Inr r, w', d') \<Rightarrow> (r, w', d'))"

section \<open>Attendance (the \<^verbatim>\<open>POST\<close> handler of the attendance route)\<close>

text \<open>The object the handler passes to \<^verbatim>\<open>zenhrAPI.markAttendance\<close>.\<close>

definition mark_attendanceData :: "session_user \<Rightarrow> json \<Rightarrow> (string \<times> json) list" where
  "mark_attendanceData su b =
     [(''employeeId'', JStr (s_employeeId su)), (''date'', js_prop b ''date''),
      (''checkIn'', js_prop b ''checkIn''), (''checkOut'', js_prop b ''checkOut''),
      (''status'', js_or (js_prop b ''status'') (JStr ''present''))]"

text \<open>
  The \<^verbatim>\<open>data\<close> object of \<^verbatim>\<open>prisma.attendance.create\<close>. A \<^verbatim>\<open>checkIn\<close> that
  is not given is \<^verbatim>\<open>new Date()\<close>, which reads the clock; a \<^verbatim>\<open>checkOut\<close> that is
  not given is \<^verbatim>\<open>null\<close>.
\<close>

definition mark_data :: "session_user \<Rightarrow> json \<Rightarrow> world \<Rightarrow> attendance_data \<times> world" where
  "mark_data su b w =
     (let date = js_prop b ''date'';
          checkIn = js_prop b ''checkIn'';
          checkOut = js_prop b ''checkOut'';
          status = js_prop b ''status'';
          (checkIn', w') =
            (if truthy checkIn
             then (newDate (Date_parse w)
                     (JStr (js_toString date @ ''T'' @ js_toString checkIn)), w)
             else (let (t, w1) = Date_now w in (Some t, w1)))
      in (\<lparr>d_aemployeeId = s_id su,
           d_date = newDate (Date_parse w) date,
           d_checkIn = checkIn',
           d_checkOut = (if truthy checkOut
                         then Some (newDate (Date_parse w)
                                      (JStr (js_toString date @ ''T'' @ js_toString checkOut)))
                         else None),
           d_astatus = js_or status (JStr ''PRESENT''),
           d_notes = js_prop b ''notes'',
           d_location = js_prop b ''location''\<rparr>, w'))"

definition attendance_POST_try ::
  "world \<Rightarrow> db \<Rightarrow> session_user option \<Rightarrow> json option \<Rightarrow> (exn + response) \<times> world \<times> db" where
  "attendance_POST_try w d session body =
     (case session of
        None \<Rightarrow> (Inr \<lparr>http_status = 401, payload = ErrorBody ''Unauthorized''\<rparr>, w, d)
      | Some su \<Rightarrow>
     (case body of
        None \<Rightarrow> (Inl SyntaxError, w, d)
      | Some b \<Rightarrow>
     if \<not> destructurable b then (Inl TypeError, w, d)
     else if \<not> truthy (js_prop b ''date'')
     then (Inr \<lparr>http_status = 400, payload = ErrorBody ''Date is required''\<rparr>, w, d)
     else
     (case markAttendance (mark_attendanceData su b) w of
        (Inl e, w1) \<Rightarrow> (Inl e, w1, d)
      | (Inr zenhrResponse, w1) \<Rightarrow>
     (case mark_data su b w1 of
        (dat, w2) \<Rightarrow>
     (case attendance_create dat w2 d of
        (Inl e, w3, d3) \<Rightarrow> (Inl e, w3, d3)
      | (Inr attendance, w3, d3) \<Rightarrow>
          (Inr \<lparr>http_status = 200, payload = AttendanceMarked attendance zenhrResponse\<rparr>,
           w3, d3))))))"

definition attendance_POST ::
  "world \<Rightarrow> db \<Rightarrow> session_user option \<Rightarrow> json option \<Rightarrow> response \<times> world \<times> db" where
  "attendance_POST w d session body =
     (case attendance_POST_try w d session body of
        (Inl e, w', d') \<Rightarrow>
          (\<lparr>http_status = 500, payload = ErrorBody ''Failed to mark attendance''\<rparr>, w', d')
      | (Inr r, w', d') \<Rightarrow> (r, w', d'))"

section \<open>Example states\<close>

text \<open>
  Two tenants: \<open>T\<close> with an employee, a second employee and a manager, and \<open>U\<close> with
  a manager of its own. Each employee of \<open>T\<close> has one pending request, assigned to the
  manager of \<open>T\<close>.
\<close>

definition ex_employee :: user where
  "ex_employee = \<lparr>u_id = ''e1'', u_name = Some ''Eve'', u_email = ''eve@t.example'',
     u_role = ''EMPLOYEE'', u_companyId = Some ''T'', u_employeeId = Some ''E-1'',
     u_department = Some ''Engineering''\<rparr>"

definition ex_colleague :: user where
  "ex_colleague = \<lparr>u_id = ''e2'', u_name = Some ''Carl'', u_email = ''carl@t.example'',
     u_role = ''EMPLOYEE'', u_companyId = Some ''T'', u_employeeId = Some ''E-2'',
     u_department = None\<rparr>"

definition ex_manager :: user where
  "ex_manager = \<lparr>u_id = ''m1'', u_name = Some ''Max'', u_email = ''max@t.example'',
     u_role = ''MANAGER'', u_companyId = Some ''T'', u_employeeId = Some ''M-1'',
     u_department = None\<rparr>"

definition ex_outsider :: user where
  "ex_outsider = \<lparr>u_id = ''m2'', u_name = Some ''Uma'', u_email = ''uma@u.example'',
     u_role = ''MANAGER'', u_companyId = Some ''U'', u_employeeId = Some ''M-2'',
     u_department = None\<rparr>"

definition ex_request :: "string \<Rightarrow> string \<Rightarrow> hRRequest" where
  "ex_request i e = \<lparr>hr_id = i, hr_type = ''LEAVE'', hr_title = ''Annual Leave'',
     hr_description = Some ''5 days'', hr_status = ''PENDING'', hr_priority = ''MEDIUM'',
     hr_startDate = None, hr_endDate = None, hr_documents = None, hr_comments = None,
     hr_createdAt = 1707900000000, hr_updatedAt = 1707900000000, hr_employeeId = e,
     hr_managerId = Some ''m1'', hr_companyId = ''T''\<rparr>"

definition ex_db :: db where
  "ex_db = \<lparr>users = [ex_employee, ex_colleague, ex_manager, ex_outsider],
     companies = [\<lparr>c_id = ''T'', c_name = ''Tenant T''\<rparr>, \<lparr>c_id = ''U'', c_name = ''Tenant U''\<rparr>],
     hrRequests = [ex_request ''r1'' ''e1'', ex_request ''r2'' ''e2''],
     approvals = [], attendances = [], notifications = []\<rparr>"

definition session_of :: "user \<Rightarrow> session_user" where
  "session_of u = \<lparr>s_id = u_id u,
     s_name = (case u_name u of None \<Rightarrow> JNull | Some n \<Rightarrow> JStr n),
     s_role = u_role u,
     s_companyId = (case u_companyId u of None \<Rightarrow> [] | Some c \<Rightarrow> c),
     s_employeeId = (case u_employeeId u of None \<Rightarrow> [] | Some e \<Rightarrow> e)\<rparr>"

text \<open>
  A world without credentials, whose clock starts at \<open>t\<close> and advances a millisecond at
  each reading; and one with an API key, whose remote is unreachable.
\<close>

definition ex_world :: "int \<Rightarrow> world" where
  "ex_world t = \<lparr>env_ZENHR_API_URL = None, env_ZENHR_API_KEY = None,
     remote = (\<lambda>log req. NetworkFailure), netlog = [],
     clock = (\<lambda>n. t + int n), ticks = 0,
     ids = (\<lambda>n. replicate (Suc n) CHR ''x''), idCount = 0,
     Date_parse = (\<lambda>s. if s = ''2024-02-15'' then Some 1707955200000 else None)\<rparr>"

definition ex_world_unreachable :: world where
  "ex_world_unreachable = (ex_world 1707984000000)\<lparr>env_ZENHR_API_KEY := Some ''secret''\<rparr>"

definition ex_leave_body :: json where
  "ex_leave_body = JObj [(''type'', JStr ''leave''), (''title'', JStr ''Annual Leave''),
                         (''description'', JStr ''5 days'')]"

definition ex_untitled_body :: json where
  "ex_untitled_body = JObj [(''type'', JStr ''leave''), (''description'', JStr ''5 days'')]"

definition ex_approve_body :: json where
  "ex_approve_body = JObj [(''requestId'', JStr ''r1''), (''status'', JStr ''approved''),
                           (''comments'', JStr ''ok'')]"

definition ex_attendance_body :: json where
  "ex_attendance_body = JObj [(''date'', JStr ''2024-02-15'')]"

section \<open>What each write does to the store\<close>

lemma required_string_Inr: "required_string v = Inr s \<longleftrightarrow> v = JStr s"
  by (cases v) auto

lemma call_toUpperCase_Inr:
  "call_toUpperCase v = Inr u \<longleftrightarrow> (\<exists>s. v = JStr s \<and> u = toUpperCase s)"
  by (cases v) auto

lemma call_toLowerCase_Inr:
  "call_toLowerCase v = Inr u \<longleftrightarrow> (\<exists>s. v = JStr s \<and> u = toLowerCase s)"
  by (cases v) auto

lemma notification_createE:
  assumes "notification_create dat w d = (res, w', d')"
  obtains (fail) e where "res = Inl e" and "d' = d"
  | (ok) n where "res = Inr n" and "d' = d\<lparr>notifications := notifications d @ [n]\<rparr>"
      and "n_userId n = d_userId dat" and "n_message n = d_message dat"
  using assms
  by (auto simp add: notification_create_def Let_def fresh_id_def Date_now_def split: if_splits)

lemma requestApproval_createE:
  assumes "requestApproval_create dat w d = (res, w', d')"
  obtains (fail) e where "res = Inl e" and "d' = d"
  | (ok) a rid where "res = Inr a" and "d' = d\<lparr>approvals := approvals d @ [a]\<rparr>"
      and "d_requestId dat = JStr rid" and "ap_requestId a = rid"
      and "ap_approverId a = d_approverId dat" and "ap_status a = d_status dat"
  using assms
  by (auto simp add: requestApproval_create_def Let_def fresh_id_def Date_now_def
      split: if_splits sum.splits elim!: required_string.elims)

lemma hRRequest_createE:
  assumes "hRRequest_create dat w d = (res, w', d')"
  obtains (fail) e where "res = Inl e" and "d' = d"
  | (ok) row where "res = Inr row" and "d' = d\<lparr>hrRequests := hrRequests d @ [row]\<rparr>"
      and "hr_companyId row = d_companyId dat" and "hr_employeeId row = d_employeeId dat"
      and "hr_managerId row = d_managerId dat" and "hr_type row = d_type dat"
      and "hr_status row = ''PENDING''"
  using assms
  by (auto simp add: hRRequest_create_def Let_def fresh_id_def Date_now_def
      split: if_splits sum.splits)

lemma hRRequest_updateE:
  assumes "hRRequest_update requestId st comments w d = (res, w', d')"
  obtains (fail) e where "res = Inl e" and "d' = d"
  | (ok) i c old where "requestId = JStr i" and "optional_string comments = Inr c"
      and "find (\<lambda>r. hr_id r = i) (hrRequests d) = Some old"
      and "res = Inr (update_row st comments c (clock w (ticks w)) old)"
      and "d' = d\<lparr>hrRequests := map (\<lambda>r. if hr_id r = i
                 then update_row st comments c (clock w (ticks w)) r else r) (hrRequests d)\<rparr>"
      and "w' = w\<lparr>ticks := Suc (ticks w)\<rparr>"
proof (cases "required_string requestId")
  case (Inl e)
  with assms have "res = Inl PrismaValidationError" "d' = d"
    by (simp_all add: hRRequest_update_def)
  then show ?thesis by (rule fail)
next
  case (Inr i)
  then have rid: "requestId = JStr i" by (simp add: required_string_Inr)
  show ?thesis
  proof (cases "optional_string comments")
    case (Inl e)
    with assms Inr have "res = Inl PrismaValidationError" "d' = d"
      by (simp_all add: hRRequest_update_def)
    then show ?thesis by (rule fail)
  next
    case c: (Inr c)
    show ?thesis
    proof (cases "find (\<lambda>r. hr_id r = i) (hrRequests d)")
      case None
      with assms Inr c have "res = Inl RecordNotFound" "d' = d"
        by (simp_all add: hRRequest_update_def Date_now_def)
      then show ?thesis by (rule fail)
    next
      case (Some old)
      with assms Inr c
      have "res = Inr (update_row st comments c (clock w (ticks w)) old)"
        and "d' = d\<lparr>hrRequests := map (\<lambda>r. if hr_id r = i
                 then update_row st comments c (clock w (ticks w)) r else r) (hrRequests d)\<rparr>"
        and "w' = w\<lparr>ticks := Suc (ticks w)\<rparr>"
        by (simp_all add: hRRequest_update_def Date_now_def)
      with rid c Some show ?thesis by (rule ok)
    qed
  qed
qed

lemma attendance_createE:
  assumes "attendance_create dat w d = (res, w', d')"
  obtains (fail) e where "res = Inl e" and "d' = d"
  | (ok) row date checkIn checkOut where "res = Inr row"
      and "d' = d\<lparr>attendances := attendances d @ [row]\<rparr>"
      and "d_date dat = Some date" and "at_date row = date"
      and "at_employeeId row = d_aemployeeId dat"
      and "d_checkIn dat = Some checkIn" and "at_checkIn row = Some checkIn"
      and "optional_date (d_checkOut dat) = Inr checkOut" and "at_checkOut row = checkOut"
      and "(d_aemployeeId dat, date)
             \<notin> set (map (\<lambda>a. (at_employeeId a, at_date a)) (attendances d))"
  using assms
  by (auto simp add: attendance_create_def Let_def fresh_id_def Date_now_def required_date_def
      split: if_splits sum.splits option.splits)

lemma update_row_simps [simp]:
  "hr_id (update_row st cm c t r) = hr_id r"
  "hr_status (update_row st cm c t r) = st"
  "hr_type (update_row st cm c t r) = hr_type r"
  "hr_employeeId (update_row st cm c t r) = hr_employeeId r"
  "hr_managerId (update_row st cm c t r) = hr_managerId r"
  "hr_companyId (update_row st cm c t r) = hr_companyId r"
  by (simp_all add: update_row_def)

lemma map_update_status:
  "\<forall>x \<in> set (map (\<lambda>x. if hr_id x = rid then update_row st cm c t x else x) xs).
     hr_id x = rid \<longrightarrow> hr_status x = st"
  by (induction xs) simp_all

lemma hRRequest_update_Inr:
  assumes "hRRequest_update requestId st comments w d = (Inr u, w', d')"
  shows "\<exists>i c old. requestId = JStr i \<and> optional_string comments = Inr c
           \<and> find (\<lambda>r. hr_id r = i) (hrRequests d) = Some old
           \<and> u = update_row st comments c (clock w (ticks w)) old
           \<and> d' = d\<lparr>hrRequests := map (\<lambda>r. if hr_id r = i
                 then update_row st comments c (clock w (ticks w)) r else r) (hrRequests d)\<rparr>"
  using assms by (rule hRRequest_updateE) auto

lemma requestApproval_create_Inr:
  assumes "requestApproval_create dat w d = (Inr a, w', d')"
  shows "d' = d\<lparr>approvals := approvals d @ [a]\<rparr> \<and> d_requestId dat = JStr (ap_requestId a)
         \<and> ap_approverId a = d_approverId dat \<and> ap_status a = d_status dat"
  using assms by (rule requestApproval_createE) auto

lemma notification_create_Inr:
  assumes "notification_create dat w d = (Inr n, w', d')"
  shows "d' = d\<lparr>notifications := notifications d @ [n]\<rparr>
         \<and> n_userId n = d_userId dat \<and> n_message n = d_message dat"
  using assms by (rule notification_createE) auto

lemma attendance_create_invalid:
  "\<not> attendance_valid dat \<Longrightarrow> attendance_create dat w d = (Inl PrismaValidationError, w, d)"
  by (simp add: attendance_valid_def attendance_create_def split: sum.splits)

lemma attendance_create_conflict:
  assumes "attendance_valid dat" and "d_date dat = Some t"
      and "(d_aemployeeId dat, t) \<in> set (map (\<lambda>a. (at_employeeId a, at_date a)) (attendances d))"
  shows "\<exists>w'. attendance_create dat w d = (Inl UniqueConstraintViolation, w', d)"
  using assms
  by (simp add: attendance_valid_def attendance_create_def required_date_def fresh_id_def
      Date_now_def Let_def split: sum.splits)

lemma no_key_filter:
  "(e, t) \<notin> set (map (\<lambda>a. (at_employeeId a, at_date a)) xs) \<Longrightarrow>
     filter (\<lambda>a. at_employeeId a = e \<and> at_date a = t) xs = []"
  by (induction xs) (simp_all, blast)

section \<open>When a write or a connector call succeeds\<close>

lemma connector_up_frame [simp]:
  "connector_up (w\<lparr>ticks := t\<rparr>) = connector_up w"
  "connector_up (w\<lparr>idCount := i\<rparr>) = connector_up w"
  by (simp_all add: connector_up_def zenhrAPI_def ZenHRAPI_constructor_def)

lemma updateHRRequestStatus_up:
  assumes "connector_up w"
  shows "\<exists>z w'. updateHRRequestStatus rid st cm w = (Inr z, w')
           \<and> ids w' = ids w \<and> idCount w' = idCount w"
proof (cases "apiKey (zenhrAPI w) = []")
  case True
  then show ?thesis
    by (simp add: updateHRRequestStatus_def mockUpdateHRRequestResponse_def Date_now_def Let_def)
next
  case False
  with assms obtain sc tx j where "response_ok sc" and
    "remote w (netlog w)
       \<lparr>req_url = baseURL (zenhrAPI w) @ ''/hr-requests/'' @ js_toString rid,
        req_method = ''PATCH'', req_authorization = ''Bearer '' @ apiKey (zenhrAPI w),
        req_body = Some (JObj [(''status'', st), (''comments'', cm)])\<rparr>
     = HttpResponse sc tx (Some j)"
    unfolding connector_up_def by blast
  with False show ?thesis
    by (simp add: updateHRRequestStatus_def makeRequest_def rethrow_def Let_def)
qed

lemma requestApproval_create_ok:
  assumes "ids w (idCount w) \<notin> set (map ap_id (approvals d))"
      and "rid \<in> set (map hr_id (hrRequests d))"
      and "approver \<in> set (map u_id (users d))"
      and "optional_string cm = Inr c"
  shows "\<exists>a. requestApproval_create
               \<lparr>d_requestId = JStr rid, d_approverId = approver, d_status = st,
                d_comments = cm\<rparr> w d
             = (Inr a, w\<lparr>idCount := Suc (idCount w), ticks := Suc (ticks w)\<rparr>,
                d\<lparr>approvals := approvals d @ [a]\<rparr>)"
  using assms by (simp add: requestApproval_create_def fresh_id_def Date_now_def Let_def)

lemma notification_create_ok:
  assumes "ids w (idCount w) \<notin> set (map n_id (notifications d))"
      and "d_userId dat \<in> set (map u_id (users d))"
  shows "\<exists>n w'. notification_create dat w d
             = (Inr n, w', d\<lparr>notifications := notifications d @ [n]\<rparr>)"
  using assms by (simp add: notification_create_def fresh_id_def Date_now_def Let_def)

lemma find_hr_id: "find (\<lambda>x. hr_id x = rid) xs = Some old \<Longrightarrow> rid \<in> set (map hr_id xs)"
  by (induction xs) (simp_all split: if_splits)

lemma map_hr_id_update:
  "map hr_id (map (\<lambda>x. if hr_id x = rid then update_row st cm c t x else x) xs) = map hr_id xs"
  by (induction xs) simp_all

lemma hRRequest_update_ok:
  assumes "optional_string cm = Inr c" and "find (\<lambda>x. hr_id x = rid) (hrRequests d) = Some old"
  shows "hRRequest_update (JStr rid) st cm w d
         = (Inr (update_row st cm c (clock w (ticks w)) old), w\<lparr>ticks := Suc (ticks w)\<rparr>,
            d\<lparr>hrRequests := map (\<lambda>x. if hr_id x = rid
                 then update_row st cm c (clock w (ticks w)) x else x) (hrRequests d)\<rparr>)"
  using assms by (simp add: hRRequest_update_def Date_now_def)

lemma markAttendance_frame:
  assumes "markAttendance a w = (res, w')"
  shows "Date_parse w' = Date_parse w"
    and "res = Inl e \<Longrightarrow> e = Error ''Unable to mark attendance in ZenHR''"
  using assms
  by (auto simp add: markAttendance_def mockAttendanceResponse_def makeRequest_def rethrow_def
      Date_now_def Let_def split: if_splits fetch_result.splits option.splits)

section \<open>What a handler has done when it answers\<close>

lemma PATCH_success:
  assumes "hr_request_PATCH w d (Some su) body = (r, w', d')" and "http_status r = 200"
  shows "\<exists>b s upd w1 d1 a w2 d2 z w3 n.
           body = Some b \<and> js_prop b ''status'' = JStr s
         \<and> hRRequest_update (js_prop b ''requestId'') (toUpperCase s) (js_prop b ''comments'') w d
             = (Inr upd, w1, d1)
         \<and> requestApproval_create
              \<lparr>d_requestId = js_prop b ''requestId'', d_approverId = s_id su,
               d_status = toUpperCase s, d_comments = js_prop b ''comments''\<rparr> w1 d1
             = (Inr a, w2, d2)
         \<and> updateHRRequestStatus (js_prop b ''requestId'') (JStr s) (js_prop b ''comments'') w2
             = (Inr z, w3)
         \<and> notification_create
              \<lparr>d_ntitle = ''HR Request Update'',
               d_message = ''Your '' @ hr_type upd @ '' request has been '' @ toLowerCase s,
               d_ntype = ''HR_REQUEST'', d_userId = hr_employeeId upd\<rparr> w3 d2
             = (Inr n, w', d')
         \<and> payload r = HRRequestUpdated upd (select_name_email d (hr_employeeId upd))"
  using assms
  unfolding hr_request_PATCH_def hr_request_PATCH_try_def Let_def
  by (auto split: option.splits if_splits sum.splits prod.splits
      simp add: call_toUpperCase_Inr call_toLowerCase_Inr)

lemma submit_data_fields:
  "submit_data su b manager w = Inr dat \<Longrightarrow>
     d_companyId dat = s_companyId su \<and> d_employeeId dat = s_id su
     \<and> d_managerId dat = map_option u_id manager
     \<and> (\<exists>ty. js_prop b ''type'' = JStr ty \<and> d_type dat = toUpperCase ty)"
  by (auto simp add: submit_data_def Let_def call_toUpperCase_Inr split: sum.splits)

lemma attendance_POST_success:
  assumes "attendance_POST w d (Some su) body = (r, w', d')" and "http_status r = 200"
  shows "\<exists>b z w1 dat w2 row.
           body = Some b \<and> truthy (js_prop b ''date'')
         \<and> markAttendance (mark_attendanceData su b) w = (Inr z, w1)
         \<and> mark_data su b w1 = (dat, w2)
         \<and> attendance_create dat w2 d = (Inr row, w', d')
         \<and> payload r = AttendanceMarked row z"
  using assms
  unfolding attendance_POST_def attendance_POST_try_def Let_def
  by (auto split: option.splits if_splits sum.splits prod.splits)

lemma mark_data_fields:
  assumes "mark_data su b w = (dat, w')"
  shows "d_aemployeeId dat = s_id su" and "d_date dat = newDate (Date_parse w) (js_prop b ''date'')"
  using assms
  by (auto simp add: mark_data_def Let_def Date_now_def split: if_splits)

lemma truthy_prop_destructurable: "truthy (js_prop b k) \<Longrightarrow> destructurable b"
  by (cases b) (simp_all add: destructurable_def)

lemma set_findMany:
  "set (hRRequest_findMany d wc) = {r \<in> set (hrRequests d). where_matches wc r}"
  by (simp add: hRRequest_findMany_def)

lemma additional_filters_employeeId [simp]:
  "w_employeeId (additional_filters status type wc) = w_employeeId wc"
  by (simp add: additional_filters_def Let_def)

section \<open>The connector without a credential\<close>

text \<open>
  C8: when no API key is configured, each of \<^verbatim>\<open>fetchEmployeeData\<close>,
  \<^verbatim>\<open>fetchAllEmployees\<close>, \<^verbatim>\<open>markAttendance\<close>, \<^verbatim>\<open>submitHRRequest\<close>,
  \<^verbatim>\<open>fetchHRRequests\<close> and \<^verbatim>\<open>updateHRRequestStatus\<close> makes no network call and
  returns a placeholder built locally, never an error. The three fetches return the same
  result for the same input in any two worlds. The other three put the time into their
  result (an identifier made of \<^verbatim>\<open>Date.now()\<close> and an ISO timestamp), so in two worlds
  they return the same result for the same input when the clock readings taken during the
  call agree; two runs at different times differ, as the example after the theorem shows.
\<close>

theorem connector_without_credential:
  assumes k1: "apiKey (zenhrAPI w1) = []" and k2: "apiKey (zenhrAPI w2) = []"
  shows "fetchEmployeeData e w1 = (Inr (mockEmployeeData e), w1)
       \<and> fetchAllEmployees c w1 = (Inr mockEmployeesList, w1)
       \<and> fetchHRRequests q w1 = (Inr (mockHRRequestsList q), w1)
       \<and> fst (fetchEmployeeData e w1) = fst (fetchEmployeeData e w2)
       \<and> fst (fetchAllEmployees c w1) = fst (fetchAllEmployees c w2)
       \<and> fst (fetchHRRequests q w1) = fst (fetchHRRequests q w2)
       \<and> (\<exists>j. fst (markAttendance a w1) = Inr j)
       \<and> netlog (snd (markAttendance a w1)) = netlog w1
       \<and> (\<exists>j. fst (submitHRRequest x w1) = Inr j)
       \<and> netlog (snd (submitHRRequest x w1)) = netlog w1
       \<and> (\<exists>j. fst (updateHRRequestStatus i s m w1) = Inr j)
       \<and> netlog (snd (updateHRRequestStatus i s m w1)) = netlog w1
       \<and> (clock w1 (ticks w1) = clock w2 (ticks w2)
            \<and> clock w1 (Suc (ticks w1)) = clock w2 (Suc (ticks w2))
          \<longrightarrow> fst (markAttendance a w1) = fst (markAttendance a w2)
              \<and> fst (submitHRRequest x w1) = fst (submitHRRequest x w2))
       \<and> (clock w1 (ticks w1) = clock w2 (ticks w2)
          \<longrightarrow> fst (updateHRRequestStatus i s m w1) = fst (updateHRRequestStatus i s m w2))"
  using k1 k2
  by (simp add: fetchEmployeeData_def fetchAllEmployees_def fetchHRRequests_def
      markAttendance_def submitHRRequest_def updateHRRequestStatus_def
      mockAttendanceResponse_def mockHRRequestResponse_def mockUpdateHRRequestResponse_def
      Date_now_def Let_def)

theorem connector_without_credential_counterexample:
  "apiKey (zenhrAPI (ex_world 1707984000000)) = []
   \<and> apiKey (zenhrAPI (ex_world 1707984060000)) = []
   \<and> fst (markAttendance (mark_attendanceData (session_of ex_employee) ex_attendance_body)
            (ex_world 1707984000000))
       \<noteq> fst (markAttendance (mark_attendanceData (session_of ex_employee) ex_attendance_body)
              (ex_world 1707984060000))"
  by (simp add: markAttendance_def mockAttendanceResponse_def Date_now_def zenhrAPI_def
      ZenHRAPI_constructor_def env_or_def ex_world_def Let_def decimal_def digits.simps
      digit_char_def mark_attendanceData_def session_of_def ex_employee_def
      ex_attendance_body_def js_or_def)

theorem connector_without_credential_witness:
  "apiKey (zenhrAPI (ex_world 1707984000000)) = []
   \<and> apiKey (zenhrAPI ((ex_world 1707984000000)\<lparr>env_ZENHR_API_KEY := Some [], idCount := 7\<rparr>)) = []
   \<and> clock (ex_world 1707984000000) (ticks (ex_world 1707984000000))
       = clock ((ex_world 1707984000000)\<lparr>env_ZENHR_API_KEY := Some [], idCount := 7\<rparr>)
           (ticks ((ex_world 1707984000000)\<lparr>env_ZENHR_API_KEY := Some [], idCount := 7\<rparr>))
   \<and> fst (markAttendance (mark_attendanceData (session_of ex_employee) ex_attendance_body)
            (ex_world 1707984000000))
       = fst (markAttendance (mark_attendanceData (session_of ex_employee) ex_attendance_body)
              ((ex_world 1707984000000)\<lparr>env_ZENHR_API_KEY := Some [], idCount := 7\<rparr>))
   \<and> netlog (snd (markAttendance (mark_attendanceData (session_of ex_employee) ex_attendance_body)
                    (ex_world 1707984000000))) = []
   \<and> fetchEmployeeData ''E-1'' (ex_world 1707984000000)
       = (Inr (mockEmployeeData ''E-1''), ex_world 1707984000000)"
proof -
  let ?w1 = "ex_world 1707984000000"
  let ?w2 = "(ex_world 1707984000000)\<lparr>env_ZENHR_API_KEY := Some [], idCount := 7\<rparr>"
  have k: "apiKey (zenhrAPI ?w1) = []" "apiKey (zenhrAPI ?w2) = []"
    by (simp_all add: zenhrAPI_def ZenHRAPI_constructor_def env_or_def ex_world_def)
  have c: "clock ?w1 (ticks ?w1) = clock ?w2 (ticks ?w2)"
    "clock ?w1 (Suc (ticks ?w1)) = clock ?w2 (Suc (ticks ?w2))"
    by (simp_all add: ex_world_def)
  have n: "netlog ?w1 = []" by (simp add: ex_world_def)
  note inst = connector_without_credential [OF k, of "''E-1''" None None
         "mark_attendanceData (session_of ex_employee) ex_attendance_body" "[]" JNull JNull JNull]
  from inst have e: "fetchEmployeeData ''E-1'' ?w1 = (Inr (mockEmployeeData ''E-1''), ?w1)"
    by (elim conjE)
  from inst have "netlog (snd (markAttendance
                     (mark_attendanceData (session_of ex_employee) ex_attendance_body) ?w1))
                  = netlog ?w1"
    by (elim conjE)
  then have nl: "netlog (snd (markAttendance
                     (mark_attendanceData (session_of ex_employee) ex_attendance_body) ?w1)) = []"
    by (simp only: n)
  from inst have "clock ?w1 (ticks ?w1) = clock ?w2 (ticks ?w2)
            \<and> clock ?w1 (Suc (ticks ?w1)) = clock ?w2 (Suc (ticks ?w2))
          \<longrightarrow> fst (markAttendance
                    (mark_attendanceData (session_of ex_employee) ex_attendance_body) ?w1)
              = fst (markAttendance
                       (mark_attendanceData (session_of ex_employee) ex_attendance_body) ?w2)
              \<and> fst (submitHRRequest [] ?w1) = fst (submitHRRequest [] ?w2)"
    by (elim conjE)
  with c have eq: "fst (markAttendance
                    (mark_attendanceData (session_of ex_employee) ex_attendance_body) ?w1)
              = fst (markAttendance
                       (mark_attendanceData (session_of ex_employee) ex_attendance_body) ?w2)"
    by blast
  show ?thesis by (intro conjI k c(1) eq nl e)
qed

section \<open>Submitting a request\<close>

text \<open>
  C7: a submission whose \<^verbatim>\<open>type\<close>, \<^verbatim>\<open>title\<close> or \<^verbatim>\<open>description\<close> is absent
  (or \<^verbatim>\<open>null\<close>, or empty) is answered with the 400 of the validation; the store is
  unchanged and so is the world, so the connector has not been called.
\<close>

theorem submit_missing_field_rejected:
  assumes "destructurable b"
      and "\<not> truthy (js_prop b ''type'') \<or> \<not> truthy (js_prop b ''title'')
           \<or> \<not> truthy (js_prop b ''description'')"
  shows "hr_request_POST w d (Some su) (Some b) =
           (\<lparr>http_status = 400,
             payload = ErrorBody ''Type, title, and description are required''\<rparr>, w, d)"
  using assms by (auto simp add: hr_request_POST_def hr_request_POST_try_def)

theorem submit_missing_field_rejected_witness:
  "destructurable ex_untitled_body
   \<and> js_prop ex_untitled_body ''title'' = JUndefined
   \<and> hr_request_POST (ex_world 0) ex_db (Some (session_of ex_employee)) (Some ex_untitled_body) =
       (\<lparr>http_status = 400,
         payload = ErrorBody ''Type, title, and description are required''\<rparr>, ex_world 0, ex_db)"
  using submit_missing_field_rejected
          [of ex_untitled_body "ex_world 0" ex_db "session_of ex_employee"]
  by (simp add: ex_untitled_body_def destructurable_def)

text \<open>
  C1: when the call to the connector fails (\<^verbatim>\<open>submitHRRequest\<close> throws), a submission
  that reached it is answered with the handler's 500 and the store is exactly what it was:
  no \<^verbatim>\<open>HRRequest\<close> row and no \<^verbatim>\<open>Notification\<close> row has been created, the call
  coming before every write.
\<close>

theorem submit_connector_failure_creates_nothing:
  assumes "destructurable b"
      and "truthy (js_prop b ''type'')" and "truthy (js_prop b ''title'')"
      and "truthy (js_prop b ''description'')"
      and "submitHRRequest (submit_requestData su b) w = (Inl e, w1)"
  shows "hr_request_POST w d (Some su) (Some b) =
           (\<lparr>http_status = 500, payload = ErrorBody ''Failed to submit HR request''\<rparr>, w1, d)"
  using assms by (simp add: hr_request_POST_def hr_request_POST_try_def)

theorem submit_connector_failure_creates_nothing_witness:
  "destructurable ex_leave_body
   \<and> truthy (js_prop ex_leave_body ''type'') \<and> truthy (js_prop ex_leave_body ''title'')
   \<and> truthy (js_prop ex_leave_body ''description'')
   \<and> fst (submitHRRequest (submit_requestData (session_of ex_employee) ex_leave_body)
            ex_world_unreachable)
       = Inl (Error ''Unable to submit HR request to ZenHR'')
   \<and> fst (hr_request_POST ex_world_unreachable ex_db (Some (session_of ex_employee))
             (Some ex_leave_body))
       = \<lparr>http_status = 500, payload = ErrorBody ''Failed to submit HR request''\<rparr>
   \<and> snd (snd (hr_request_POST ex_world_unreachable ex_db (Some (session_of ex_employee))
                  (Some ex_leave_body))) = ex_db"
proof -
  have c1: "fst (submitHRRequest (submit_requestData (session_of ex_employee) ex_leave_body)
                  ex_world_unreachable)
            = Inl (Error ''Unable to submit HR request to ZenHR'')"
    by (simp add: submitHRRequest_def makeRequest_def rethrow_def zenhrAPI_def
        ZenHRAPI_constructor_def env_or_def ex_world_unreachable_def ex_world_def)
  then have c: "submitHRRequest (submit_requestData (session_of ex_employee) ex_leave_body)
             ex_world_unreachable
           = (Inl (Error ''Unable to submit HR request to ZenHR''),
              snd (submitHRRequest (submit_requestData (session_of ex_employee) ex_leave_body)
                     ex_world_unreachable))"
    by (metis prod.collapse)
  have b: "destructurable ex_leave_body" "truthy (js_prop ex_leave_body ''type'')"
    "truthy (js_prop ex_leave_body ''title'')" "truthy (js_prop ex_leave_body ''description'')"
    by (simp_all add: ex_leave_body_def destructurable_def)
  have "hr_request_POST ex_world_unreachable ex_db (Some (session_of ex_employee))
          (Some ex_leave_body)
        = (\<lparr>http_status = 500, payload = ErrorBody ''Failed to submit HR request''\<rparr>,
           snd (submitHRRequest (submit_requestData (session_of ex_employee) ex_leave_body)
                  ex_world_unreachable), ex_db)"
    by (rule submit_connector_failure_creates_nothing [OF b c])
  with b c1 show ?thesis by simp
qed

text \<open>
  C2: whatever a submission answers, it leaves the \<^verbatim>\<open>HRRequest\<close> table as it was
  (and then the answer is not a success), or it has added exactly one row, whose
  \<^verbatim>\<open>companyId\<close> is the tenant of the submitting principal and whose
  \<^verbatim>\<open>employeeId\<close> is that principal. The principal is the one the session layer
  attaches to the call.
\<close>

theorem submit_request_carries_principal_tenant:
  assumes "hr_request_POST w d session body = (r, w', d')"
  shows "(\<exists>su row. session = Some su \<and> hrRequests d' = hrRequests d @ [row]
             \<and> hr_companyId row = s_companyId su \<and> hr_employeeId row = s_id su)
         \<or> (hrRequests d' = hrRequests d \<and> http_status r \<noteq> 200)"
  using assms
  unfolding hr_request_POST_def hr_request_POST_try_def Let_def
  by (auto split: option.splits if_splits sum.splits prod.splits
      elim!: hRRequest_createE notification_createE dest!: submit_data_fields)

theorem submit_request_carries_principal_tenant_witness:
  "http_status (fst (hr_request_POST (ex_world 1707984000000) ex_db
                       (Some (session_of ex_employee)) (Some ex_leave_body))) = 200
   \<and> s_companyId (session_of ex_employee) = ''T''
   \<and> (\<exists>row. hrRequests (snd (snd (hr_request_POST (ex_world 1707984000000) ex_db
                              (Some (session_of ex_employee)) (Some ex_leave_body))))
               = hrRequests ex_db @ [row]
            \<and> hr_companyId row = ''T'' \<and> hr_employeeId row = ''e1'')"
proof -
  let ?X = "hr_request_POST (ex_world 1707984000000) ex_db
              (Some (session_of ex_employee)) (Some ex_leave_body)"
  have st: "http_status (fst ?X) = 200"
    by (simp add: hr_request_POST_def hr_request_POST_try_def submit_requestData_def
        submit_data_def submit_notification_def submit_response_def destructurable_def
        toUpperCase_def upper_char_def submitHRRequest_def mockHRRequestResponse_def
        zenhrAPI_def ZenHRAPI_constructor_def env_or_def Date_now_def fresh_id_def
        user_findUnique_def user_findFirst_def hRRequest_create_def notification_create_def
        optional_date_def select_name_email_def Let_def session_of_def ex_world_def
        ex_leave_body_def ex_db_def ex_employee_def ex_colleague_def ex_manager_def ex_outsider_def ex_request_def)
  have su: "s_companyId (session_of ex_employee) = ''T''" "s_id (session_of ex_employee) = ''e1''"
    by (simp_all add: session_of_def ex_employee_def)
  have "?X = (fst ?X, fst (snd ?X), snd (snd ?X))" by simp
  from submit_request_carries_principal_tenant [OF this] st su
  show ?thesis by simp
qed

section \<open>Listing requests\<close>

text \<open>
  C5: whatever the \<^verbatim>\<open>status\<close>, \<^verbatim>\<open>type\<close> and \<^verbatim>\<open>employeeId\<close> parameters, every
  request listed for a principal of role \<^verbatim>\<open>EMPLOYEE\<close> is a stored request whose author
  is that principal.
\<close>

theorem list_employee_sees_own_requests:
  assumes "s_role su = ''EMPLOYEE''"
  shows "http_status (hr_request_GET d (Some su) status type employeeId) = 200
         \<and> (\<forall>r \<in> set (listed (hr_request_GET d (Some su) status type employeeId)).
               r \<in> set (hrRequests d) \<and> hr_employeeId r = s_id su)"
  using assms
  by (auto simp add: hr_request_GET_def listed_def Let_def set_findMany where_matches_def
      role_filter_def comp_def split: option.splits)

theorem list_employee_sees_own_requests_witness:
  "s_role (session_of ex_employee) = ''EMPLOYEE''
   \<and> listed (hr_request_GET ex_db (Some (session_of ex_employee)) None None (Some ''e2''))
       = [ex_request ''r1'' ''e1'']
   \<and> ex_request ''r1'' ''e1'' \<in> set (hrRequests ex_db)
   \<and> hr_employeeId (ex_request ''r1'' ''e1'') = s_id (session_of ex_employee)"
proof -
  have role: "s_role (session_of ex_employee) = ''EMPLOYEE''"
    by (simp add: session_of_def ex_employee_def)
  have l: "listed (hr_request_GET ex_db (Some (session_of ex_employee)) None None (Some ''e2''))
       = [ex_request ''r1'' ''e1'']"
    by (simp add: listed_def hr_request_GET_def role_filter_def additional_filters_def
        given_def hRRequest_findMany_def where_matches_def user_findUnique_def
        select_name_email_def Let_def session_of_def ex_db_def ex_employee_def ex_colleague_def ex_manager_def ex_outsider_def ex_request_def)
  from list_employee_sees_own_requests [OF role, of ex_db None None "Some ''e2''"] role l
  show ?thesis by simp
qed

section \<open>Updating the status of a request\<close>

text \<open>
  C3: a principal whose role is neither \<^verbatim>\<open>MANAGER\<close> nor \<^verbatim>\<open>ADMIN\<close> is answered
  with the 401 \<^verbatim>\<open>Unauthorized\<close> of the role test, and neither the store nor the world
  has changed.
\<close>

theorem updateStatus_requires_manager_or_admin:
  assumes "s_role su \<noteq> ''MANAGER''" and "s_role su \<noteq> ''ADMIN''"
  shows "hr_request_PATCH w d (Some su) body =
           (\<lparr>http_status = 401, payload = ErrorBody ''Unauthorized''\<rparr>, w, d)"
  using assms by (simp add: hr_request_PATCH_def hr_request_PATCH_try_def)

theorem updateStatus_requires_manager_or_admin_witness:
  "s_role (session_of ex_employee) \<noteq> ''MANAGER''
   \<and> s_role (session_of ex_employee) \<noteq> ''ADMIN''
   \<and> hr_request_PATCH (ex_world 0) ex_db (Some (session_of ex_employee)) (Some ex_approve_body) =
       (\<lparr>http_status = 401, payload = ErrorBody ''Unauthorized''\<rparr>, ex_world 0, ex_db)"
  using updateStatus_requires_manager_or_admin
          [of "session_of ex_employee" "ex_world 0" ex_db "Some ex_approve_body"]
  by (simp add: session_of_def ex_employee_def)

text \<open>
  C4: when an update of the status answers 200, the request named by \<^verbatim>\<open>requestId\<close>
  has the new status in upper case (and no other request has changed), exactly one
  \<^verbatim>\<open>RequestApproval\<close> row has been appended, whose approver is the acting principal,
  and exactly one \<^verbatim>\<open>Notification\<close> has been appended, addressed to the author of the
  request, whose message ends with the new status in lower case.
\<close>

theorem updateStatus_success_effects:
  assumes run: "hr_request_PATCH w d (Some su) body = (r, w', d')"
      and ok: "http_status r = 200"
  shows "\<exists>b rid s c old a n.
           body = Some b \<and> js_prop b ''requestId'' = JStr rid \<and> js_prop b ''status'' = JStr s
         \<and> find (\<lambda>x. hr_id x = rid) (hrRequests d) = Some old
         \<and> hrRequests d' =
             map (\<lambda>x. if hr_id x = rid
                       then update_row (toUpperCase s) (js_prop b ''comments'') c
                              (clock w (ticks w)) x
                       else x) (hrRequests d)
         \<and> (\<forall>x \<in> set (hrRequests d'). hr_id x = rid \<longrightarrow> hr_status x = toUpperCase s)
         \<and> approvals d' = approvals d @ [a]
         \<and> ap_approverId a = s_id su \<and> ap_requestId a = rid \<and> ap_status a = toUpperCase s
         \<and> notifications d' = notifications d @ [n]
         \<and> n_userId n = hr_employeeId old
         \<and> n_message n = ''Your '' @ hr_type old @ '' request has been '' @ toLowerCase s"
proof -
  from PATCH_success [OF run ok] obtain b s upd w1 d1 a w2 d2 z w3 n where
    b: "body = Some b" and s: "js_prop b ''status'' = JStr s"
    and u: "hRRequest_update (js_prop b ''requestId'') (toUpperCase s) (js_prop b ''comments'') w d
             = (Inr upd, w1, d1)"
    and ap: "requestApproval_create
              \<lparr>d_requestId = js_prop b ''requestId'', d_approverId = s_id su,
               d_status = toUpperCase s, d_comments = js_prop b ''comments''\<rparr> w1 d1
             = (Inr a, w2, d2)"
    and co: "updateHRRequestStatus (js_prop b ''requestId'') (JStr s) (js_prop b ''comments'') w2
             = (Inr z, w3)"
    and no: "notification_create
              \<lparr>d_ntitle = ''HR Request Update'',
               d_message = ''Your '' @ hr_type upd @ '' request has been '' @ toLowerCase s,
               d_ntype = ''HR_REQUEST'', d_userId = hr_employeeId upd\<rparr> w3 d2
             = (Inr n, w', d')"
    by (elim exE conjE) (rule that; assumption)
  from hRRequest_update_Inr [OF u] obtain rid c old where
    rid: "js_prop b ''requestId'' = JStr rid"
    and old: "find (\<lambda>x. hr_id x = rid) (hrRequests d) = Some old"
    and upd: "upd = update_row (toUpperCase s) (js_prop b ''comments'') c (clock w (ticks w)) old"
    and d1: "d1 = d\<lparr>hrRequests := map (\<lambda>x. if hr_id x = rid
                 then update_row (toUpperCase s) (js_prop b ''comments'') c (clock w (ticks w)) x
                 else x) (hrRequests d)\<rparr>"
    by (elim exE conjE) (rule that; assumption)
  from requestApproval_create_Inr [OF ap] rid have
    d2: "d2 = d1\<lparr>approvals := approvals d1 @ [a]\<rparr>"
    and a: "ap_approverId a = s_id su" "ap_requestId a = rid" "ap_status a = toUpperCase s"
    by simp_all
  from notification_create_Inr [OF no] upd have
    d': "d' = d2\<lparr>notifications := notifications d2 @ [n]\<rparr>"
    and n: "n_userId n = hr_employeeId old"
           "n_message n = ''Your '' @ hr_type old @ '' request has been '' @ toLowerCase s"
    by simp_all
  have rows: "hrRequests d' =
             map (\<lambda>x. if hr_id x = rid
                       then update_row (toUpperCase s) (js_prop b ''comments'') c
                              (clock w (ticks w)) x
                       else x) (hrRequests d)"
    by (simp add: d' d2 d1)
  have st: "\<forall>x \<in> set (hrRequests d'). hr_id x = rid \<longrightarrow> hr_status x = toUpperCase s"
    unfolding rows by (rule map_update_status)
  have tabs: "approvals d' = approvals d @ [a]" "notifications d' = notifications d @ [n]"
    by (simp_all add: d' d2 d1)
  show ?thesis
    by (rule exI [of _ b], rule exI [of _ rid], rule exI [of _ s], rule exI [of _ c],
        rule exI [of _ old], rule exI [of _ a], rule exI [of _ n])
       (intro conjI b rid s old rows st a n tabs)
qed

theorem updateStatus_success_effects_witness:
  "http_status (fst (hr_request_PATCH (ex_world 1707984000000) ex_db
                       (Some (session_of ex_manager)) (Some ex_approve_body))) = 200
   \<and> map hr_status (hrRequests (snd (snd (hr_request_PATCH (ex_world 1707984000000) ex_db
                       (Some (session_of ex_manager)) (Some ex_approve_body)))))
      = [''APPROVED'', ''PENDING'']
   \<and> (\<exists>a n. approvals (snd (snd (hr_request_PATCH (ex_world 1707984000000) ex_db
                       (Some (session_of ex_manager)) (Some ex_approve_body))))
               = approvals ex_db @ [a]
            \<and> ap_approverId a = ''m1'' \<and> ap_requestId a = ''r1'' \<and> ap_status a = ''APPROVED''
            \<and> notifications (snd (snd (hr_request_PATCH (ex_world 1707984000000) ex_db
                       (Some (session_of ex_manager)) (Some ex_approve_body))))
               = notifications ex_db @ [n]
            \<and> n_userId n = ''e1''
            \<and> n_message n = ''Your LEAVE request has been approved'')"
proof -
  let ?X = "hr_request_PATCH (ex_world 1707984000000) ex_db
              (Some (session_of ex_manager)) (Some ex_approve_body)"
  have "\<exists>r w' d'. ?X = (r, w', d') \<and> http_status r = 200
           \<and> map hr_status (hrRequests d') = [''APPROVED'', ''PENDING'']"
    by (simp add: hr_request_PATCH_def hr_request_PATCH_try_def destructurable_def
        toUpperCase_def upper_char_def toLowerCase_def lower_char_def
        updateHRRequestStatus_def mockUpdateHRRequestResponse_def zenhrAPI_def
        ZenHRAPI_constructor_def env_or_def Date_now_def fresh_id_def hRRequest_update_def
        update_row_def requestApproval_create_def notification_create_def
        user_findUnique_def select_name_email_def Let_def session_of_def ex_world_def
        ex_approve_body_def ex_db_def ex_employee_def ex_colleague_def ex_manager_def ex_outsider_def ex_request_def)
  then obtain r w' d' where X: "?X = (r, w', d')" and st: "http_status r = 200"
    and rows: "map hr_status (hrRequests d') = [''APPROVED'', ''PENDING'']"
    by (elim exE conjE)
  from updateStatus_success_effects [OF X st]
  obtain b rid s c old a n where
    b: "Some ex_approve_body = Some b"
    and rid: "js_prop b ''requestId'' = JStr rid" and s: "js_prop b ''status'' = JStr s"
    and old: "find (\<lambda>x. hr_id x = rid) (hrRequests ex_db) = Some old"
    and "hrRequests d' =
           map (\<lambda>x. if hr_id x = rid
                     then update_row (toUpperCase s) (js_prop b ''comments'') c
                            (clock (ex_world 1707984000000) (ticks (ex_world 1707984000000))) x
                     else x) (hrRequests ex_db)"
    and ap: "approvals d' = approvals ex_db @ [a]" "ap_approverId a = s_id (session_of ex_manager)"
       "ap_requestId a = rid" "ap_status a = toUpperCase s"
    and no: "notifications d' = notifications ex_db @ [n]" "n_userId n = hr_employeeId old"
       "n_message n = ''Your '' @ hr_type old @ '' request has been '' @ toLowerCase s"
    by (elim exE conjE)
  from b have "b = ex_approve_body" by simp
  with rid s have v: "rid = ''r1''" "s = ''approved''"
    by (simp_all add: ex_approve_body_def)
  from old v have o: "old = ex_request ''r1'' ''e1''"
    by (simp add: ex_db_def ex_request_def)
  have "ap_approverId a = ''m1''" "ap_requestId a = ''r1''" "ap_status a = ''APPROVED''"
    "n_userId n = ''e1''" "n_message n = ''Your LEAVE request has been approved''"
    using ap no v o
    by (simp_all add: session_of_def ex_manager_def ex_request_def toUpperCase_def
        toLowerCase_def upper_char_def lower_char_def)
  with ap(1) no(1) have "\<exists>a n. approvals d' = approvals ex_db @ [a]
            \<and> ap_approverId a = ''m1'' \<and> ap_requestId a = ''r1'' \<and> ap_status a = ''APPROVED''
            \<and> notifications d' = notifications ex_db @ [n]
            \<and> n_userId n = ''e1''
            \<and> n_message n = ''Your LEAVE request has been approved''"
    by blast
  with st rows show ?thesis by (simp add: X)
qed

text \<open>
  C9: beyond the role test the update makes no check of tenant or assignment. For a
  principal of role \<^verbatim>\<open>MANAGER\<close> or \<^verbatim>\<open>ADMIN\<close>, a \<^verbatim>\<open>requestId\<close> that names a
  stored request, a \<^verbatim>\<open>status\<close> that is a non-empty string and \<^verbatim>\<open>comments\<close> that
  are a string, \<^verbatim>\<open>null\<close> or absent, the request is mutated whatever its tenant and
  its manager are, and the answer is 200 when the later steps can go through: the
  principal and the author are stored users, the next two identifiers are unused, and the
  connector does not fail. No hypothesis relates the request's \<^verbatim>\<open>companyId\<close> or
  \<^verbatim>\<open>managerId\<close> to the principal.
\<close>

theorem updateStatus_no_tenant_check:
  assumes role: "s_role su = ''MANAGER'' \<or> s_role su = ''ADMIN''"
      and rid: "js_prop b ''requestId'' = JStr rid" "rid \<noteq> []"
      and st: "js_prop b ''status'' = JStr s" "s \<noteq> []"
      and cm: "optional_string (js_prop b ''comments'') = Inr c"
      and old: "find (\<lambda>x. hr_id x = rid) (hrRequests d) = Some old"
      and run: "hr_request_PATCH w d (Some su) (Some b) = (r, w', d')"
  shows "hrRequests d' =
           map (\<lambda>x. if hr_id x = rid
                     then update_row (toUpperCase s) (js_prop b ''comments'') c
                            (clock w (ticks w)) x
                     else x) (hrRequests d)
         \<and> (s_id su \<in> set (map u_id (users d))
              \<and> hr_employeeId old \<in> set (map u_id (users d))
              \<and> ids w (idCount w) \<notin> set (map ap_id (approvals d))
              \<and> ids w (Suc (idCount w)) \<notin> set (map n_id (notifications d))
              \<and> connector_up w
            \<longrightarrow> http_status r = 200)"
proof -
  let ?cm = "js_prop b ''comments''"
  define upd where "upd = update_row (toUpperCase s) ?cm c (clock w (ticks w)) old"
  define w1 where "w1 = w\<lparr>ticks := Suc (ticks w)\<rparr>"
  define d1 where "d1 = d\<lparr>hrRequests := map (\<lambda>x. if hr_id x = rid
                 then update_row (toUpperCase s) ?cm c (clock w (ticks w)) x else x)
                 (hrRequests d)\<rparr>"
  define adat where "adat = \<lparr>d_requestId = JStr rid, d_approverId = s_id su,
                             d_status = toUpperCase s, d_comments = ?cm\<rparr>"
  define ndat where "ndat = \<lparr>d_ntitle = ''HR Request Update'',
               d_message = ''Your '' @ hr_type upd @ '' request has been '' @ toLowerCase s,
               d_ntype = ''HR_REQUEST'', d_userId = hr_employeeId upd\<rparr>"
  have destr: "destructurable b"
    using rid(1) by (cases b) (simp_all add: destructurable_def)
  have u: "hRRequest_update (JStr rid) (toUpperCase s) ?cm w d = (Inr upd, w1, d1)"
    unfolding upd_def w1_def d1_def by (rule hRRequest_update_ok [OF cm old])
  have unf: "hr_request_PATCH_try w d (Some su) (Some b) =
     (case requestApproval_create adat w1 d1 of
        (Inl e, w2, d2) \<Rightarrow> (Inl e, w2, d2)
      | (Inr approval, w2, d2) \<Rightarrow>
     (case updateHRRequestStatus (JStr rid) (JStr s) ?cm w2 of
        (Inl e, w3) \<Rightarrow> (Inl e, w3, d2)
      | (Inr zenhrResponse, w3) \<Rightarrow>
     (case notification_create ndat w3 d2 of
        (Inl e, w4, d4) \<Rightarrow> (Inl e, w4, d4)
      | (Inr n, w4, d4) \<Rightarrow>
          (Inr \<lparr>http_status = 200,
                payload = HRRequestUpdated upd (select_name_email d (hr_employeeId upd))\<rparr>,
           w4, d4))))"
    unfolding hr_request_PATCH_try_def adat_def ndat_def
    using role destr rid st u
    by (elim disjE) (simp_all add: Let_def split: prod.splits sum.splits)
  obtain res2 w2 d2 where ap: "requestApproval_create adat w1 d1 = (res2, w2, d2)"
    by (rule prod_cases3)
  obtain res3 w3 where co: "updateHRRequestStatus (JStr rid) (JStr s) ?cm w2 = (res3, w3)"
    by (rule prod.exhaust)
  obtain res4 w4 d4 where no: "notification_create ndat w3 d2 = (res4, w4, d4)"
    by (rule prod_cases3)
  have f2: "hrRequests d2 = hrRequests d1"
    using ap by (rule requestApproval_createE) simp_all
  have f4: "hrRequests d4 = hrRequests d2"
    using no by (rule notification_createE) simp_all
  have "d' = d2 \<or> d' = d4"
    using run ap co no unfolding hr_request_PATCH_def unf
    by (cases res2; cases res3; cases res4) auto
  with f2 f4 have rows: "hrRequests d' = hrRequests d1" by auto
  have ok: "http_status r = 200"
    if env: "s_id su \<in> set (map u_id (users d))"
            "hr_employeeId old \<in> set (map u_id (users d))"
            "ids w (idCount w) \<notin> set (map ap_id (approvals d))"
            "ids w (Suc (idCount w)) \<notin> set (map n_id (notifications d))"
            "connector_up w"
  proof -
    have "hrRequests d1 = map (\<lambda>x. if hr_id x = rid
                 then update_row (toUpperCase s) ?cm c (clock w (ticks w)) x else x)
                 (hrRequests d)"
      by (simp add: d1_def)
    then have "map hr_id (hrRequests d1) = map hr_id (hrRequests d)"
      by (simp only: map_hr_id_update)
    with find_hr_id [OF old] have "rid \<in> set (map hr_id (hrRequests d1))"
      by (simp only:)
    moreover have "ids w1 (idCount w1) \<notin> set (map ap_id (approvals d1))"
      using env(3) by (simp add: w1_def d1_def)
    moreover have "s_id su \<in> set (map u_id (users d1))"
      using env(1) by (simp add: d1_def)
    ultimately obtain a where
      ap': "requestApproval_create adat w1 d1
             = (Inr a, w1\<lparr>idCount := Suc (idCount w1), ticks := Suc (ticks w1)\<rparr>,
                d1\<lparr>approvals := approvals d1 @ [a]\<rparr>)"
      unfolding adat_def using requestApproval_create_ok [OF _ _ _ cm] by blast
    with ap have w2: "w2 = w1\<lparr>idCount := Suc (idCount w1), ticks := Suc (ticks w1)\<rparr>"
      and d2: "d2 = d1\<lparr>approvals := approvals d1 @ [a]\<rparr>" and r2: "res2 = Inr a"
      by simp_all
    have "connector_up w2" using env(5) by (simp add: w2 w1_def)
    from updateHRRequestStatus_up [OF this, of "JStr rid" "JStr s" ?cm] co
    obtain z where r3: "res3 = Inr z" and i3: "ids w3 = ids w2" "idCount w3 = idCount w2"
      by auto
    have "ids w3 (idCount w3) \<notin> set (map n_id (notifications d2))"
      using env(4) by (simp add: i3 w2 w1_def d2 d1_def)
    moreover have "d_userId ndat \<in> set (map u_id (users d2))"
      using env(2) by (simp add: ndat_def upd_def d2 d1_def)
    ultimately obtain n w4' where
      "notification_create ndat w3 d2 = (Inr n, w4', d2\<lparr>notifications := notifications d2 @ [n]\<rparr>)"
      using notification_create_ok by blast
    with no have r4: "res4 = Inr n" by simp
    from run ap co no r2 r3 r4 show ?thesis
      unfolding hr_request_PATCH_def unf by auto
  qed
  from rows ok show ?thesis by (simp add: d1_def)
qed

theorem updateStatus_no_tenant_check_witness:
  "s_role (session_of ex_outsider) = ''MANAGER''
   \<and> s_companyId (session_of ex_outsider) = ''U''
   \<and> find (\<lambda>x. hr_id x = ''r1'') (hrRequests ex_db) = Some (ex_request ''r1'' ''e1'')
   \<and> hr_companyId (ex_request ''r1'' ''e1'') = ''T''
   \<and> hr_managerId (ex_request ''r1'' ''e1'') = Some ''m1''
   \<and> s_id (session_of ex_outsider) = ''m2''
   \<and> http_status (fst (hr_request_PATCH (ex_world 1707984000000) ex_db
                          (Some (session_of ex_outsider)) (Some ex_approve_body))) = 200
   \<and> map hr_status (hrRequests (snd (snd (hr_request_PATCH (ex_world 1707984000000) ex_db
                          (Some (session_of ex_outsider)) (Some ex_approve_body)))))
       = [''APPROVED'', ''PENDING'']"
proof -
  let ?w = "ex_world 1707984000000"
  let ?X = "hr_request_PATCH ?w ex_db (Some (session_of ex_outsider)) (Some ex_approve_body)"
  have su: "s_role (session_of ex_outsider) = ''MANAGER''"
    "s_companyId (session_of ex_outsider) = ''U''" "s_id (session_of ex_outsider) = ''m2''"
    by (simp_all add: session_of_def ex_outsider_def)
  have old: "find (\<lambda>x. hr_id x = ''r1'') (hrRequests ex_db) = Some (ex_request ''r1'' ''e1'')"
    by (simp add: ex_db_def ex_request_def)
  have rq: "hr_companyId (ex_request ''r1'' ''e1'') = ''T''"
    "hr_managerId (ex_request ''r1'' ''e1'') = Some ''m1''"
    by (simp_all add: ex_request_def)
  have b: "js_prop ex_approve_body ''requestId'' = JStr ''r1''" "''r1'' \<noteq> []"
    "js_prop ex_approve_body ''status'' = JStr ''approved''" "''approved'' \<noteq> []"
    "optional_string (js_prop ex_approve_body ''comments'') = Inr (Some ''ok'')"
    by (simp_all add: ex_approve_body_def)
  have env: "s_id (session_of ex_outsider) \<in> set (map u_id (users ex_db))"
    "hr_employeeId (ex_request ''r1'' ''e1'') \<in> set (map u_id (users ex_db))"
    "ids ?w (idCount ?w) \<notin> set (map ap_id (approvals ex_db))"
    "ids ?w (Suc (idCount ?w)) \<notin> set (map n_id (notifications ex_db))"
    "connector_up ?w"
    by (simp_all add: ex_db_def ex_employee_def ex_colleague_def ex_manager_def ex_outsider_def ex_request_def
        session_of_def ex_world_def connector_up_def zenhrAPI_def ZenHRAPI_constructor_def
        env_or_def)
  have X: "?X = (fst ?X, fst (snd ?X), snd (snd ?X))" by simp
  from updateStatus_no_tenant_check [OF disjI1 [OF su(1)] b old X] env
  have rows: "hrRequests (snd (snd ?X)) =
           map (\<lambda>x. if hr_id x = ''r1''
                     then update_row (toUpperCase ''approved'') (js_prop ex_approve_body ''comments'')
                            (Some ''ok'') (clock ?w (ticks ?w)) x
                     else x) (hrRequests ex_db)"
    and ok: "http_status (fst ?X) = 200"
    by blast+
  from rows have "map hr_status (hrRequests (snd (snd ?X))) = [''APPROVED'', ''PENDING'']"
    by (simp add: ex_db_def ex_request_def update_row_def toUpperCase_def upper_char_def)
  with su old rq ok show ?thesis by simp
qed

section \<open>Marking attendance\<close>

text \<open>
  C6: after a mark that was answered 200, a second mark by the same employee for the same
  date throws and is answered with the handler's 500, whatever else it carries; the store
  is left as it was, with exactly one \<^verbatim>\<open>Attendance\<close> row for that employee and date,
  so the first mark is not overwritten. What is thrown is the conflict on the unique index
  whenever the second call gets as far as the insert, that is, when its connector call
  succeeds and its arguments pass validation; otherwise it is the connector's error or
  the validation error, thrown before the insert.
\<close>

theorem second_attendance_mark_conflicts:
  assumes first: "attendance_POST w d (Some su) (Some b) = (r, w1, d1)"
      and ok: "http_status r = 200"
      and su2: "s_id su2 = s_id su"
      and date2: "truthy (js_prop b2 ''date'')"
      and same: "newDate (Date_parse w2) (js_prop b2 ''date'')
                 = newDate (Date_parse w) (js_prop b ''date'')"
  shows "\<exists>t e w3.
           newDate (Date_parse w) (js_prop b ''date'') = Some t
         \<and> length (filter (\<lambda>a. at_employeeId a = s_id su \<and> at_date a = t) (attendances d1)) = 1
         \<and> attendance_POST_try w2 d1 (Some su2) (Some b2) = (Inl e, w3, d1)
         \<and> attendance_POST w2 d1 (Some su2) (Some b2)
             = (\<lparr>http_status = 500, payload = ErrorBody ''Failed to mark attendance''\<rparr>, w3, d1)
         \<and> (e = UniqueConstraintViolation \<or> e = PrismaValidationError
              \<or> e = Error ''Unable to mark attendance in ZenHR'')
         \<and> (\<forall>z wz. markAttendance (mark_attendanceData su2 b2) w2 = (Inr z, wz)
                     \<and> attendance_valid (fst (mark_data su2 b2 wz))
                 \<longrightarrow> e = UniqueConstraintViolation)"
proof -
  from attendance_POST_success [OF first ok] obtain z wc dat wd row where
    co: "markAttendance (mark_attendanceData su b) w = (Inr z, wc)"
    and md: "mark_data su b wc = (dat, wd)"
    and cr: "attendance_create dat wd d = (Inr row, w1, d1)"
    by auto
  from cr obtain t where
    d1: "d1 = d\<lparr>attendances := attendances d @ [row]\<rparr>"
    and dt: "d_date dat = Some t" and rt: "at_date row = t"
    and re: "at_employeeId row = d_aemployeeId dat"
    and fresh: "(d_aemployeeId dat, t)
                  \<notin> set (map (\<lambda>a. (at_employeeId a, at_date a)) (attendances d))"
    by (rule attendance_createE) simp_all
  have emp: "d_aemployeeId dat = s_id su"
    and "d_date dat = newDate (Date_parse wc) (js_prop b ''date'')"
    using mark_data_fields [OF md] by simp_all
  with dt markAttendance_frame(1) [OF co]
  have t: "newDate (Date_parse w) (js_prop b ''date'') = Some t" by simp
  have one: "length (filter (\<lambda>a. at_employeeId a = s_id su \<and> at_date a = t) (attendances d1)) = 1"
    using no_key_filter [OF fresh] re rt emp by (simp add: d1)
  have key: "(s_id su, t) \<in> set (map (\<lambda>a. (at_employeeId a, at_date a)) (attendances d1))"
    using re rt emp by (simp add: d1)
  have destr: "destructurable b2" using date2 by (rule truthy_prop_destructurable)
  obtain res wz where co2: "markAttendance (mark_attendanceData su2 b2) w2 = (res, wz)"
    by (rule prod.exhaust)
  obtain dat2 wd2 where md2: "mark_data su2 b2 wz = (dat2, wd2)"
    by (rule prod.exhaust)
  have dat2: "d_aemployeeId dat2 = s_id su" "d_date dat2 = Some t"
    using mark_data_fields [OF md2] markAttendance_frame(1) [OF co2] su2 same t by simp_all
  have unf: "attendance_POST_try w2 d1 (Some su2) (Some b2) =
     (case res of
        Inl x \<Rightarrow> (Inl x, wz, d1)
      | Inr zr \<Rightarrow>
          (case attendance_create dat2 wd2 d1 of
             (Inl x, w3, d3) \<Rightarrow> (Inl x, w3, d3)
           | (Inr attendance, w3, d3) \<Rightarrow>
               (Inr \<lparr>http_status = 200, payload = AttendanceMarked attendance zr\<rparr>, w3, d3)))"
    using destr date2 co2 md2 by (simp add: attendance_POST_try_def split: sum.splits)
  have "\<exists>e w3. attendance_POST_try w2 d1 (Some su2) (Some b2) = (Inl e, w3, d1)
           \<and> (e = UniqueConstraintViolation \<or> e = PrismaValidationError
                \<or> e = Error ''Unable to mark attendance in ZenHR'')
           \<and> (\<forall>z wz. markAttendance (mark_attendanceData su2 b2) w2 = (Inr z, wz)
                     \<and> attendance_valid (fst (mark_data su2 b2 wz))
                 \<longrightarrow> e = UniqueConstraintViolation)"
  proof (cases res)
    case (Inl x)
    with markAttendance_frame(2) [OF co2] have "x = Error ''Unable to mark attendance in ZenHR''"
      by simp
    with Inl co2 show ?thesis by (simp add: unf)
  next
    case (Inr zr)
    show ?thesis
    proof (cases "attendance_valid dat2")
      case True
      from attendance_create_conflict [OF True dat2(2), of d1 wd2] key dat2(1)
      obtain w3 where "attendance_create dat2 wd2 d1 = (Inl UniqueConstraintViolation, w3, d1)"
        by auto
      with Inr show ?thesis by (simp add: unf)
    next
      case False
      from attendance_create_invalid [OF False]
      have "attendance_create dat2 wd2 d1 = (Inl PrismaValidationError, wd2, d1)" .
      with Inr False co2 md2 show ?thesis by (simp add: unf)
    qed
  qed
  then obtain e w3 where
    e: "attendance_POST_try w2 d1 (Some su2) (Some b2) = (Inl e, w3, d1)"
    and kinds: "e = UniqueConstraintViolation \<or> e = PrismaValidationError
                \<or> e = Error ''Unable to mark attendance in ZenHR''"
    and uniq: "\<forall>z wz. markAttendance (mark_attendanceData su2 b2) w2 = (Inr z, wz)
                     \<and> attendance_valid (fst (mark_data su2 b2 wz))
                 \<longrightarrow> e = UniqueConstraintViolation"
    by blast
  from e have post: "attendance_POST w2 d1 (Some su2) (Some b2)
             = (\<lparr>http_status = 500, payload = ErrorBody ''Failed to mark attendance''\<rparr>, w3, d1)"
    by (simp add: attendance_POST_def)
  show ?thesis
    by (rule exI [of _ t], rule exI [of _ e], rule exI [of _ w3])
       (intro conjI t one e post kinds uniq)
qed

theorem second_attendance_mark_conflicts_witness:
  "http_status (fst (attendance_POST (ex_world 1707984000000) ex_db
                       (Some (session_of ex_employee)) (Some ex_attendance_body))) = 200
   \<and> fst (attendance_POST_try
            (fst (snd (attendance_POST (ex_world 1707984000000) ex_db
                         (Some (session_of ex_employee)) (Some ex_attendance_body))))
            (snd (snd (attendance_POST (ex_world 1707984000000) ex_db
                         (Some (session_of ex_employee)) (Some ex_attendance_body))))
            (Some (session_of ex_employee)) (Some ex_attendance_body))
       = Inl UniqueConstraintViolation
   \<and> fst (attendance_POST
            (fst (snd (attendance_POST (ex_world 1707984000000) ex_db
                         (Some (session_of ex_employee)) (Some ex_attendance_body))))
            (snd (snd (attendance_POST (ex_world 1707984000000) ex_db
                         (Some (session_of ex_employee)) (Some ex_attendance_body))))
            (Some (session_of ex_employee)) (Some ex_attendance_body))
       = \<lparr>http_status = 500, payload = ErrorBody ''Failed to mark attendance''\<rparr>
   \<and> snd (snd (attendance_POST
            (fst (snd (attendance_POST (ex_world 1707984000000) ex_db
                         (Some (session_of ex_employee)) (Some ex_attendance_body))))
            (snd (snd (attendance_POST (ex_world 1707984000000) ex_db
                         (Some (session_of ex_employee)) (Some ex_attendance_body))))
            (Some (session_of ex_employee)) (Some ex_attendance_body)))
       = snd (snd (attendance_POST (ex_world 1707984000000) ex_db
                         (Some (session_of ex_employee)) (Some ex_attendance_body)))
   \<and> length (filter (\<lambda>a. at_employeeId a = ''e1'' \<and> at_date a = 1707955200000)
               (attendances (snd (snd (attendance_POST (ex_world 1707984000000) ex_db
                         (Some (session_of ex_employee)) (Some ex_attendance_body)))))) = 1"
proof -
  let ?w = "ex_world 1707984000000"
  let ?s = "session_of ex_employee"
  let ?X = "attendance_POST ?w ex_db (Some ?s) (Some ex_attendance_body)"
  have "\<exists>r w1 d1. ?X = (r, w1, d1) \<and> http_status r = 200
          \<and> Date_parse w1 = Date_parse ?w
          \<and> fst (attendance_POST_try w1 d1 (Some ?s) (Some ex_attendance_body))
              = Inl UniqueConstraintViolation"
    by (simp add: attendance_POST_def attendance_POST_try_def mark_attendanceData_def
        mark_data_def destructurable_def js_or_def markAttendance_def
        mockAttendanceResponse_def zenhrAPI_def ZenHRAPI_constructor_def env_or_def
        Date_now_def fresh_id_def attendance_create_def required_date_def optional_date_def
        Let_def session_of_def ex_world_def ex_attendance_body_def ex_db_def ex_employee_def ex_colleague_def ex_manager_def ex_outsider_def ex_request_def)
  then obtain r w1 d1 where X: "?X = (r, w1, d1)" and st: "http_status r = 200"
    and dp: "Date_parse w1 = Date_parse ?w"
    and ev: "fst (attendance_POST_try w1 d1 (Some ?s) (Some ex_attendance_body))
              = Inl UniqueConstraintViolation"
    by (elim exE conjE)
  have date: "truthy (js_prop ex_attendance_body ''date'')"
    by (simp add: ex_attendance_body_def)
  have same: "newDate (Date_parse w1) (js_prop ex_attendance_body ''date'')
              = newDate (Date_parse ?w) (js_prop ex_attendance_body ''date'')"
    by (simp add: dp)
  from second_attendance_mark_conflicts [OF X st refl date same]
  obtain t e w3 where
    t: "newDate (Date_parse ?w) (js_prop ex_attendance_body ''date'') = Some t"
    and one: "length (filter (\<lambda>a. at_employeeId a = s_id ?s \<and> at_date a = t) (attendances d1)) = 1"
    and "attendance_POST_try w1 d1 (Some ?s) (Some ex_attendance_body) = (Inl e, w3, d1)"
    and post: "attendance_POST w1 d1 (Some ?s) (Some ex_attendance_body)
             = (\<lparr>http_status = 500, payload = ErrorBody ''Failed to mark attendance''\<rparr>, w3, d1)"
    by (elim exE conjE)
  from t have "t = 1707955200000" by (simp add: ex_attendance_body_def ex_world_def)
  with one have "length (filter (\<lambda>a. at_employeeId a = ''e1'' \<and> at_date a = 1707955200000)
                           (attendances d1)) = 1"
    by (simp add: session_of_def ex_employee_def)
  with st ev post show ?thesis by (simp add: X)
qed

text \<open>
  C10: in a mark that is answered 200, a \<^verbatim>\<open>checkIn\<close> that is not given (or falsy) is
  stored as the reading of the clock taken after the connector call, not as \<^verbatim>\<open>NULL\<close>,
  whereas a \<^verbatim>\<open>checkOut\<close> that is not given is stored as \<^verbatim>\<open>NULL\<close>.
\<close>

theorem markAttendance_checkIn_default:
  assumes run: "attendance_POST w d (Some su) (Some b) = (r, w', d')"
      and ok: "http_status r = 200"
  shows "\<exists>z w1 row. markAttendance (mark_attendanceData su b) w = (Inr z, w1)
           \<and> attendances d' = attendances d @ [row]
           \<and> payload r = AttendanceMarked row z
           \<and> (\<not> truthy (js_prop b ''checkIn'') \<longrightarrow> at_checkIn row = Some (clock w1 (ticks w1)))
           \<and> (\<not> truthy (js_prop b ''checkOut'') \<longrightarrow> at_checkOut row = None)"
proof -
  from attendance_POST_success [OF run ok] obtain z w1 dat w2 row where
    co: "markAttendance (mark_attendanceData su b) w = (Inr z, w1)"
    and md: "mark_data su b w1 = (dat, w2)"
    and cr: "attendance_create dat w2 d = (Inr row, w', d')"
    and pl: "payload r = AttendanceMarked row z"
    by auto
  from cr have rows: "attendances d' = attendances d @ [row]"
    and ci: "d_checkIn dat = at_checkIn row"
    and cout: "optional_date (d_checkOut dat) = Inr (at_checkOut row)"
    by (rule attendance_createE; simp)+
  have a: "at_checkIn row = Some (clock w1 (ticks w1))" if "\<not> truthy (js_prop b ''checkIn'')"
    using md that ci by (auto simp add: mark_data_def Let_def Date_now_def)
  have b: "at_checkOut row = None" if "\<not> truthy (js_prop b ''checkOut'')"
    using md that cout
    by (auto simp add: mark_data_def Let_def Date_now_def optional_date_def split: prod.splits)
  from co rows pl a b show ?thesis by blast
qed

theorem markAttendance_checkIn_default_witness:
  "http_status (fst (attendance_POST (ex_world 1707984000000) ex_db
                       (Some (session_of ex_employee)) (Some ex_attendance_body))) = 200
   \<and> js_prop ex_attendance_body ''checkIn'' = JUndefined
   \<and> js_prop ex_attendance_body ''checkOut'' = JUndefined
   \<and> (\<exists>row. attendances (snd (snd (attendance_POST (ex_world 1707984000000) ex_db
                       (Some (session_of ex_employee)) (Some ex_attendance_body))))
               = attendances ex_db @ [row]
            \<and> at_checkIn row = Some 1707984000002 \<and> at_checkOut row = None)"
proof -
  let ?w = "ex_world 1707984000000"
  let ?X = "attendance_POST ?w ex_db (Some (session_of ex_employee)) (Some ex_attendance_body)"
  have st: "http_status (fst ?X) = 200"
    by (simp add: attendance_POST_def attendance_POST_try_def mark_attendanceData_def
        mark_data_def destructurable_def js_or_def markAttendance_def
        mockAttendanceResponse_def zenhrAPI_def ZenHRAPI_constructor_def env_or_def
        Date_now_def fresh_id_def attendance_create_def required_date_def optional_date_def
        Let_def session_of_def ex_world_def ex_attendance_body_def ex_db_def ex_employee_def ex_colleague_def ex_manager_def ex_outsider_def ex_request_def)
  have b: "js_prop ex_attendance_body ''checkIn'' = JUndefined"
    "js_prop ex_attendance_body ''checkOut'' = JUndefined"
    by (simp_all add: ex_attendance_body_def)
  have c: "snd (markAttendance (mark_attendanceData (session_of ex_employee) ex_attendance_body) ?w)
           = ?w\<lparr>ticks := 2\<rparr>"
    by (simp add: markAttendance_def mockAttendanceResponse_def Date_now_def zenhrAPI_def
        ZenHRAPI_constructor_def env_or_def ex_world_def Let_def numeral_2_eq_2)
  have X: "?X = (fst ?X, fst (snd ?X), snd (snd ?X))" by simp
  from markAttendance_checkIn_default [OF X st] b c
  have "\<exists>row. attendances (snd (snd ?X)) = attendances ex_db @ [row]
            \<and> at_checkIn row = Some 1707984000002 \<and> at_checkOut row = None"
    by (auto simp add: ex_world_def)
  with st b show ?thesis by simp
qed

end
